(* ===== verification/Prelude.thy ===== *)
theory Prelude
  imports Main
begin

text \<open>
  Shared vocabulary of the development: the Python values and exceptions that flow through
  the block (\<open>pyval\<close>, \<open>exn\<close>), Python's \<open>str()\<close> on those values, the error-result
  type \<open>'a result\<close> with its bind \<open>rbind\<close> (an exception raised by a statement aborts the
  statements after it), and the generic lemmas the component theories share. The
  collection \<open>result_simps\<close> gathers the rewrite rules for results.
\<close>

named_theorems result_simps "rewrite rules for the error-result type and its bind"

section \<open>Python values and exceptions\<close>

text \<open>
  The values a template may evaluate to, and the values the block writes into its output
  signal: \<open>None\<close>, booleans, unbounded ints, strings and dicts. A dict is kept as an
  association list in insertion order, as Python keeps it.
\<close>

datatype pyval =
    PyNone
  | PyBool bool
  | PyInt int
  | PyStr string
  | PyDict "(string \<times> pyval) list"

text \<open>
  A raised exception: its class name, whether the class derives from \<open>Exception\<close> (so that
  \<open>except Exception\<close> catches it; \<open>KeyboardInterrupt\<close> and \<open>SystemExit\<close> do not), and
  its \<open>args\<close> tuple.
\<close>

record exn =
  exn_class :: string
  exn_is_Exception :: bool
  exn_args :: "pyval list"

type_synonym 'a result = "exn + 'a"

definition index_error :: exn where
  "index_error =
     \<lparr>exn_class = ''IndexError'', exn_is_Exception = True,
      exn_args = [PyStr ''tuple index out of range'']\<rparr>"

section \<open>Python's str() and repr()\<close>

fun digits_of_nat :: "nat \<Rightarrow> string" where
  "digits_of_nat n =
     (if n < 10 then [''0123456789'' ! n]
      else digits_of_nat (n div 10) @ [''0123456789'' ! (n mod 10)])"

declare digits_of_nat.simps [simp del]

definition str_of_int :: "int \<Rightarrow> string" where
  "str_of_int i =
     (if i < 0 then CHR ''-'' # digits_of_nat (nat (- i)) else digits_of_nat (nat i))"

text \<open>\<open>str()\<close> of the scalar values (\<open>repr()\<close> agrees with it on them).\<close>

fun py_str_scalar :: "pyval \<Rightarrow> string" where
  "py_str_scalar PyNone = ''None''"
| "py_str_scalar (PyBool b) = (if b then ''True'' else ''False'')"
| "py_str_scalar (PyInt i) = str_of_int i"
| "py_str_scalar (PyStr s) = s"
| "py_str_scalar (PyDict kvs) = []"

text \<open>
  \<open>str()\<close> of a dict is its \<open>repr()\<close>: keys and string values single-quoted, pairs
  separated by \<open>, \<close>. Escaping of quotes inside strings is not modelled.
\<close>

fun py_str :: "pyval \<Rightarrow> string"
  and py_repr :: "pyval \<Rightarrow> string"
  and py_repr_items :: "(string \<times> pyval) list \<Rightarrow> string" where
  "py_str (PyDict kvs) = CHR ''{'' # py_repr_items kvs @ ''}''"
| "py_str v = py_str_scalar v"
| "py_repr (PyStr s) = CHR 0x27 # s @ [CHR 0x27]"
| "py_repr (PyDict kvs) = CHR ''{'' # py_repr_items kvs @ ''}''"
| "py_repr v = py_str_scalar v"
| "py_repr_items [] = []"
| "py_repr_items [(k, v)] = CHR 0x27 # k @ CHR 0x27 # '': '' @ py_repr v"
| "py_repr_items ((k, v) # kvs) =
     CHR 0x27 # k @ CHR 0x27 # '': '' @ py_repr v @ '', '' @ py_repr_items kvs"

section \<open>The error-result bind\<close>

text \<open>
  \<open>rbind m f\<close> runs \<open>f\<close> on the value of \<open>m\<close>, or passes the exception of \<open>m\<close> on:
  the sequencing of two Python statements of which the first may raise.
\<close>

definition rbind :: "'a result \<Rightarrow> ('a \<Rightarrow> 'b result) \<Rightarrow> 'b result" where
  "rbind m f = (case m of Inl e \<Rightarrow> Inl e | Inr a \<Rightarrow> f a)"

lemma rbind_Inl [simp, result_simps]: "rbind (Inl e) f = Inl e"
  by (simp add: rbind_def)

lemma rbind_Inr [simp, result_simps]: "rbind (Inr a) f = f a"
  by (simp add: rbind_def)

text \<open>Congruence for recursive definitions whose recursive call sits under \<open>rbind\<close>.\<close>

lemma rbind_cong [fundef_cong]:
  "m = m' \<Longrightarrow> (\<And>a. m' = Inr a \<Longrightarrow> f a = g a) \<Longrightarrow> rbind m f = rbind m' g"
  by (cases m) auto

lemma rbind_eq_Inr_iff [result_simps]:
  "rbind m f = Inr b \<longleftrightarrow> (\<exists>a. m = Inr a \<and> f a = Inr b)"
  by (cases m) auto

lemma rbind_eq_Inl_iff [result_simps]:
  "rbind m f = Inl e \<longleftrightarrow> m = Inl e \<or> (\<exists>a. m = Inr a \<and> f a = Inl e)"
  by (cases m) auto

section \<open>Shared list lemmas\<close>

text \<open>
  A list has a first element satisfying \<open>Q\<close> with all elements before it satisfying
  \<open>P\<close>: the shape of "the first failing item of a loop that stops at a failure".
\<close>

lemma ex_first_Cons:
  "(\<exists>xs y ys. a # as = xs @ y # ys \<and> (\<forall>x\<in>set xs. P x) \<and> Q y) \<longleftrightarrow>
   Q a \<or> (P a \<and> (\<exists>xs y ys. as = xs @ y # ys \<and> (\<forall>x\<in>set xs. P x) \<and> Q y))"
proof
  assume "\<exists>xs y ys. a # as = xs @ y # ys \<and> (\<forall>x\<in>set xs. P x) \<and> Q y"
  then obtain xs y ys where eq: "a # as = xs @ y # ys" and p: "\<forall>x\<in>set xs. P x" and q: "Q y"
    by blast
  show "Q a \<or> (P a \<and> (\<exists>xs y ys. as = xs @ y # ys \<and> (\<forall>x\<in>set xs. P x) \<and> Q y))"
  proof (cases xs)
    case Nil
    with eq q show ?thesis by simp
  next
    case (Cons x xs')
    with eq p q show ?thesis by auto
  qed
next
  assume "Q a \<or> (P a \<and> (\<exists>xs y ys. as = xs @ y # ys \<and> (\<forall>x\<in>set xs. P x) \<and> Q y))"
  then show "\<exists>xs y ys. a # as = xs @ y # ys \<and> (\<forall>x\<in>set xs. P x) \<and> Q y"
  proof
    assume "Q a"
    then show ?thesis by (intro exI [of _ "[]"]) simp
  next
    assume "P a \<and> (\<exists>xs y ys. as = xs @ y # ys \<and> (\<forall>x\<in>set xs. P x) \<and> Q y)"
    then obtain xs y ys where "P a" "as = xs @ y # ys" "\<forall>x\<in>set xs. P x" "Q y"
      by blast
    then show ?thesis by (intro exI [of _ "a # xs"]) auto
  qed
qed

end
