(* ===== verification/Host.thy ===== *)
theory Host
  imports Prelude
begin

text \<open>
  The host framework's side of the contract (nio: signals, property evaluation, the
  \<open>EnrichSignals\<close> mixin). None of it is under src/; it is modelled from the spec
  (sections 6 and 9) and from how src/mailgun_block.py calls it:
  \<^item> a signal is a set of attributes, a map from attribute names to values;
  \<^item> a property's template is resolved against the signal by the host's evaluator, which
    may raise; the block receives it as a parameter of type \<open>resolver\<close>;
    \<open>StringProperty\<close> casts the value with Python's \<open>str()\<close>;
  \<^item> \<open>get_output_signal\<close> builds the outgoing signal from the block's result dict and
    the incoming signal, as configured by the mixin's \<open>enrich\<close> property.
\<close>

type_synonym signal = "string \<rightharpoonup> pyval"

type_synonym resolver = "string \<Rightarrow> signal \<Rightarrow> pyval result"

definition eval_string_property :: "resolver \<Rightarrow> string \<Rightarrow> signal \<Rightarrow> string result" where
  "eval_string_property ev t s = rbind (ev t s) (\<lambda>v. Inr (py_str v))"

section \<open>Signal enrichment\<close>

text \<open>
  The mixin's configuration: with \<open>exclude_existing\<close> (the default) the output signal
  holds the result dict alone; otherwise the incoming signal is copied and either the
  result dict is stored under \<open>enrich_field\<close> or, when that is empty, its entries are
  merged into the copy, overwriting attributes of the same name.
\<close>

record enrich_cfg =
  exclude_existing :: bool
  enrich_field :: string

definition default_enrich :: enrich_cfg where
  "default_enrich = \<lparr>exclude_existing = True, enrich_field = []\<rparr>"

definition get_output_signal :: "enrich_cfg \<Rightarrow> (string \<times> pyval) list \<Rightarrow> signal \<Rightarrow> signal" where
  "get_output_signal cfg data s =
     (if exclude_existing cfg then map_of data
      else if enrich_field cfg \<noteq> [] then s(enrich_field cfg \<mapsto> PyDict data)
      else s ++ map_of data)"

lemma eval_string_property_Inr_iff:
  "eval_string_property ev t s = Inr x \<longleftrightarrow> (\<exists>v. ev t s = Inr v \<and> x = py_str v)"
  by (auto simp: eval_string_property_def rbind_eq_Inr_iff)

lemma eval_string_property_Inl_iff:
  "eval_string_property ev t s = Inl e \<longleftrightarrow> ev t s = Inl e"
  by (auto simp: eval_string_property_def rbind_eq_Inl_iff)

lemma get_output_signal_data:
  "exclude_existing cfg \<or> enrich_field cfg = [] \<Longrightarrow> k \<in> fst ` set data \<Longrightarrow>
   get_output_signal cfg data s k = map_of data k"
  by (auto simp: get_output_signal_def map_add_def split: option.splits dest: map_of_eq_None_iff [THEN iffD1])

end
