(* ===== verification/Block_Config.thy ===== *)
theory Block_Config
  imports Host
begin

text \<open>
  The block's configuration, src/mailgun_block.py lines 7--30: the property holders
  \<open>MailgunCreds\<close>, \<open>Recipient\<close>, \<open>Emails\<close> and \<open>Message\<close> as records of their
  properties' templates (strings, resolved per signal by the host), with the defaults
  the source declares, and the block \<open>MailGun\<close> itself, whose \<open>enrich\<close> property comes
  from the \<open>EnrichSignals\<close> mixin. The message holder's \<open>text\<close> property is the field
  \<open>msg_text\<close> (\<open>text\<close> is an Isabelle keyword).
\<close>

record mailgun_creds =
  api_domain :: string
  api_key :: string

definition default_mailgun_creds :: mailgun_creds where
  "default_mailgun_creds =
     \<lparr>api_domain = ''[[MAILGUN_DOMAIN]]'', api_key = ''[[MAILGUN_API_KEY]]''\<rparr>"

record recipient =
  recip :: string

definition default_recipient :: recipient where
  "default_recipient = \<lparr>recip = ''{{ $email }}''\<rparr>"

record emails =
  sender :: string
  to_recipients :: "recipient list"
  cc_recipients :: "recipient list"
  bcc_recipients :: "recipient list"

definition default_emails :: emails where
  "default_emails =
     \<lparr>sender = ''<no-reply@mydomain.com>'', to_recipients = [], cc_recipients = [],
      bcc_recipients = []\<rparr>"

record message =
  subject :: string
  msg_text :: string
  html :: string

definition default_message :: message where
  "default_message =
     \<lparr>subject = ''Subject'', msg_text = ''Message text'', html = ''<b>Message HTML</b>''\<rparr>"

record mailgun =
  version :: string
  creds :: mailgun_creds
  emails :: emails
  message :: message
  enrich :: enrich_cfg

end
