(* ===== verification/Backend.thy ===== *)
theory Backend
  imports Host
begin

text \<open>
  The external collaborators the block calls, as seen from src/mailgun_block.py: the
  fluentmail \<open>Message\<close> it builds, the fluentmail \<open>Mailgun\<close> backend it opens, sends
  through and closes (a context manager), and the host's \<open>notify_signals\<close>. Neither
  library is under src/: their behaviour is modelled from the spec (section 6: a
  black-box \<open>send(request, credentials) \<rightarrow> success | raises\<close>).

  Every call to a collaborator is an \<open>effect\<close>. Whether the call raises is decided by the
  environment \<open>env\<close>, an oracle with one field per kind of call; the block is proved
  correct for every oracle. The world records the backend connection's state and the log
  of every call issued, in order, with its outcome (\<open>None\<close>: it returned).
\<close>

record fluent_message =
  fm_subject :: string
  fm_text :: string
  fm_html :: string
  fm_from_address :: string
  fm_to :: "string list"
  fm_cc :: "string list"
  fm_bcc :: "string list"

datatype effect =
    Open pyval pyval  \<comment> \<open>\<open>MailgunBackend(domain, api_key)\<close> and its \<open>__enter__\<close>\<close>
  | Send fluent_message  \<comment> \<open>\<open>msg.send(backend)\<close>\<close>
  | Close  \<comment> \<open>the backend's \<open>__exit__\<close>\<close>
  | Notify signal  \<comment> \<open>the host's \<open>notify_signals\<close>\<close>

datatype conn_state = Disconnected | Connected pyval pyval

record env =
  open_backend :: "pyval \<Rightarrow> pyval \<Rightarrow> exn option"
  send_message :: "fluent_message \<Rightarrow> exn option"
  close_backend :: "exn option"
  notify_host :: "signal \<Rightarrow> exn option"

type_synonym call_log = "(effect \<times> exn option) list"

record world =
  w_conn :: conn_state
  w_log :: call_log

fun outcome_of :: "env \<Rightarrow> effect \<Rightarrow> exn option" where
  "outcome_of E (Open d k) = open_backend E d k"
| "outcome_of E (Send m) = send_message E m"
| "outcome_of E Close = close_backend E"
| "outcome_of E (Notify s) = notify_host E s"

text \<open>
  The connection a call leaves: a successful open connects; \<open>__exit__\<close> releases the
  connection even when it raises (the spec's guaranteed release); the other calls do not
  touch it.
\<close>

fun conn_after :: "effect \<Rightarrow> exn option \<Rightarrow> conn_state \<Rightarrow> conn_state" where
  "conn_after (Open d k) None c = Connected d k"
| "conn_after Close r c = Disconnected"
| "conn_after eff r c = c"

definition call :: "env \<Rightarrow> effect \<Rightarrow> world \<Rightarrow> exn option \<times> world" where
  "call E eff w =
     (let r = outcome_of E eff
      in (r, w\<lparr>w_conn := conn_after eff r (w_conn w), w_log := w_log w @ [(eff, r)]\<rparr>))"

section \<open>Observations on a call log\<close>

fun notified_of :: "effect \<times> exn option \<Rightarrow> signal list" where
  "notified_of (Notify s, None) = [s]"
| "notified_of _ = []"

fun accepted_of :: "effect \<times> exn option \<Rightarrow> fluent_message list" where
  "accepted_of (Send m, None) = [m]"
| "accepted_of _ = []"

fun is_send :: "effect \<times> exn option \<Rightarrow> bool" where
  "is_send (Send m, r) = True"
| "is_send _ = False"

text \<open>The signals the host received, and the messages the backend accepted.\<close>

definition notified :: "call_log \<Rightarrow> signal list" where
  "notified L = concat (map notified_of L)"

definition accepted :: "call_log \<Rightarrow> fluent_message list" where
  "accepted L = concat (map accepted_of L)"

section \<open>The backend's connection protocol\<close>

text \<open>
  Which calls the backend allows in which connection state: open only when disconnected,
  send and exit only when connected; notifying the host is allowed in any state. A log is
  a run of the protocol from one state to another.
\<close>

inductive conn_step :: "conn_state \<Rightarrow> effect \<times> exn option \<Rightarrow> conn_state \<Rightarrow> bool" where
  open_ok: "conn_step Disconnected (Open d k, None) (Connected d k)"
| open_fail: "conn_step Disconnected (Open d k, Some e) Disconnected"
| send: "conn_step (Connected d k) (Send m, r) (Connected d k)"
| close: "conn_step (Connected d k) (Close, r) Disconnected"
| notify: "conn_step c (Notify s, r) c"

inductive conn_run :: "conn_state \<Rightarrow> call_log \<Rightarrow> conn_state \<Rightarrow> bool" where
  run_nil: "conn_run c [] c"
| run_cons: "conn_step c x c' \<Longrightarrow> conn_run c' xs c'' \<Longrightarrow> conn_run c (x # xs) c''"

inductive_simps conn_step_simps: "conn_step c x c'"
inductive_simps conn_run_Nil [simp]: "conn_run c [] c'"
inductive_simps conn_run_Cons [simp]: "conn_run c (x # xs) c''"
inductive_cases conn_stepE: "conn_step c x c'"

section \<open>Lemmas on calls\<close>

lemma call_fst [simp]: "fst (call E eff w) = outcome_of E eff"
  by (simp add: call_def Let_def)

lemma call_log [simp]: "w_log (snd (call E eff w)) = w_log w @ [(eff, outcome_of E eff)]"
  by (simp add: call_def Let_def)

lemma call_conn [simp]: "w_conn (snd (call E eff w)) = conn_after eff (outcome_of E eff) (w_conn w)"
  by (simp add: call_def Let_def)

lemma call_eq:
  "call E eff w =
     (outcome_of E eff,
      \<lparr>w_conn = conn_after eff (outcome_of E eff) (w_conn w),
       w_log = w_log w @ [(eff, outcome_of E eff)]\<rparr>)"
  by (simp add: call_def Let_def)

lemma notified_append [simp]: "notified (xs @ ys) = notified xs @ notified ys"
  by (simp add: notified_def)

lemma accepted_append [simp]: "accepted (xs @ ys) = accepted xs @ accepted ys"
  by (simp add: accepted_def)

lemma notified_simps [simp]:
  "notified [] = []"
  "notified (x # xs) = notified_of x @ notified xs"
  by (simp_all add: notified_def)

lemma accepted_simps [simp]:
  "accepted [] = []"
  "accepted (x # xs) = accepted_of x @ accepted xs"
  by (simp_all add: accepted_def)

lemma conn_run_append:
  "conn_run c xs c' \<Longrightarrow> conn_run c' ys c'' \<Longrightarrow> conn_run c (xs @ ys) c''"
  by (induction rule: conn_run.induct) (auto intro: conn_run.intros)

lemma conn_step_conn_after:
  assumes "conn_step c x c'"
  shows "c' = conn_after (fst x) (snd x) c"
  using assms by (cases rule: conn_step.cases) auto

text \<open>The protocol is deterministic: a log determines the state it ends in.\<close>

lemma conn_run_deterministic:
  "conn_run c xs c' \<Longrightarrow> conn_run c xs c'' \<Longrightarrow> c' = c''"
proof (induction arbitrary: c'' rule: conn_run.induct)
  case (run_nil c)
  then show ?case by simp
next
  case (run_cons c x c1 xs c2)
  from run_cons.prems obtain c1' where step: "conn_step c x c1'" and run: "conn_run c1' xs c''"
    by auto
  have "c1' = c1"
    using conn_step_conn_after [OF step] conn_step_conn_after [OF run_cons.hyps(1)] by simp
  with run show ?case by (rule_tac run_cons.IH) simp
qed

end
