(* ===== verification/MailGun.thy ===== *)
theory MailGun
  imports Block_Config Backend
begin

text \<open>
  \<open>MailGun.process_signal\<close>, src/mailgun_block.py lines 32--66, in the order the code
  runs it:
  \<^item> \<open>resolve_fields\<close> (lines 33--50): the six scalar properties and the three recipient
    loops are evaluated against the signal, outside the \<open>try\<close>: the first exception
    aborts the handler and propagates to the host;
  \<^item> \<open>with_backend\<close> (lines 53 and 61): Python's \<open>with\<close> statement over the backend;
  \<^item> \<open>try_body\<close> (lines 52--63): open, build and send the message, close, then notify the
    success signal;
  \<^item> \<open>handle_exception\<close> (lines 65--66): \<open>except Exception as e\<close>, notify the failure
    signal whose message is \<open>e.args[0]\<close>;
  \<^item> \<open>process_signal\<close>: the whole handler. It returns \<open>None\<close> when the Python method
    returns, \<open>Some e\<close> when it raises \<open>e\<close> to the host, and the world after its calls.
\<close>

section \<open>Resolving the properties\<close>

text \<open>The locals \<open>_api_domain\<close> \<dots> \<open>_bcc_recipients\<close> of lines 33--50.\<close>

record resolved =
  res_domain :: pyval
  res_key :: pyval
  res_text :: string
  res_html :: string
  res_subject :: string
  res_sender :: string
  res_to :: "string list"
  res_cc :: "string list"
  res_bcc :: "string list"

text \<open>
  One recipient loop (lines 43--44, and likewise 46--47 and 49--50): the list starts
  empty and each recipient's resolved address is appended in turn.
\<close>

fun collect_recipients :: "resolver \<Rightarrow> signal \<Rightarrow> string list \<Rightarrow> recipient list \<Rightarrow> string list result" where
  "collect_recipients ev s acc [] = Inr acc"
| "collect_recipients ev s acc (r # rs) =
     rbind (eval_string_property ev (recip r) s) (\<lambda>v. collect_recipients ev s (acc @ [v]) rs)"

definition resolve_fields :: "mailgun \<Rightarrow> resolver \<Rightarrow> signal \<Rightarrow> resolved result" where
  "resolve_fields blk ev s =
     rbind (ev (api_domain (creds blk)) s) (\<lambda>d.
     rbind (ev (api_key (creds blk)) s) (\<lambda>k.
     rbind (eval_string_property ev (msg_text (message blk)) s) (\<lambda>tx.
     rbind (eval_string_property ev (html (message blk)) s) (\<lambda>h.
     rbind (eval_string_property ev (subject (message blk)) s) (\<lambda>sj.
     rbind (eval_string_property ev (sender (emails blk)) s) (\<lambda>sn.
     rbind (collect_recipients ev s [] (to_recipients (emails blk))) (\<lambda>to.
     rbind (collect_recipients ev s [] (cc_recipients (emails blk))) (\<lambda>cc.
     rbind (collect_recipients ev s [] (bcc_recipients (emails blk))) (\<lambda>bcc.
     Inr \<lparr>res_domain = d, res_key = k, res_text = tx, res_html = h, res_subject = sj,
          res_sender = sn, res_to = to, res_cc = cc, res_bcc = bcc\<rparr>)))))))))"

section \<open>Sending and reporting\<close>

text \<open>\<open>FluentMessage(_subject, _text, html=_html, from_address=_sender, to=\<dots>)\<close>, lines 54--60.\<close>

definition build_message :: "resolved \<Rightarrow> fluent_message" where
  "build_message f =
     \<lparr>fm_subject = res_subject f, fm_text = res_text f, fm_html = res_html f,
      fm_from_address = res_sender f, fm_to = res_to f, fm_cc = res_cc f, fm_bcc = res_bcc f\<rparr>"

text \<open>
  \<open>with MailgunBackend(d, k) as backend: body\<close>. If the constructor or \<open>__enter__\<close>
  raises, the body and \<open>__exit__\<close> are skipped. Otherwise \<open>__exit__\<close> runs after the
  body on both paths; an exception it raises replaces the body's, and otherwise the
  body's exception, if any, propagates (\<open>__exit__\<close> never suppresses it).
\<close>

definition with_backend ::
  "env \<Rightarrow> pyval \<Rightarrow> pyval \<Rightarrow> (world \<Rightarrow> exn option \<times> world) \<Rightarrow> world \<Rightarrow> exn option \<times> world" where
  "with_backend E d k body w =
     (case call E (Open d k) w of
        (Some e, w1) \<Rightarrow> (Some e, w1)
      | (None, w1) \<Rightarrow>
          (case body w1 of
             (r, w2) \<Rightarrow>
               (case call E Close w2 of
                  (Some e', w3) \<Rightarrow> (Some e', w3)
                | (None, w3) \<Rightarrow> (r, w3))))"

text \<open>The result dicts of lines 63 and 66.\<close>

definition success_data :: "(string \<times> pyval) list" where
  "success_data = [(''error'', PyInt 0), (''message'', PyStr ''Password reset email sent.'')]"

definition failure_data :: "pyval \<Rightarrow> (string \<times> pyval) list" where
  "failure_data m = [(''error'', PyInt 1), (''message'', m)]"

definition try_body :: "mailgun \<Rightarrow> env \<Rightarrow> resolved \<Rightarrow> signal \<Rightarrow> world \<Rightarrow> exn option \<times> world" where
  "try_body blk E f s w =
     (case with_backend E (res_domain f) (res_key f) (call E (Send (build_message f))) w of
        (Some e, w1) \<Rightarrow> (Some e, w1)
      | (None, w1) \<Rightarrow> call E (Notify (get_output_signal (enrich blk) success_data s)) w1)"

text \<open>
  \<open>except Exception as e\<close>: an exception outside \<open>Exception\<close> propagates; otherwise
  \<open>e.args[0]\<close> raises \<open>IndexError\<close> when \<open>args\<close> is empty, and the failure signal is
  notified.
\<close>

definition handle_exception :: "mailgun \<Rightarrow> env \<Rightarrow> signal \<Rightarrow> exn \<Rightarrow> world \<Rightarrow> exn option \<times> world" where
  "handle_exception blk E s e w =
     (if exn_is_Exception e then
        (case exn_args e of
           [] \<Rightarrow> (Some index_error, w)
         | a # _ \<Rightarrow> call E (Notify (get_output_signal (enrich blk) (failure_data a) s)) w)
      else (Some e, w))"

definition dispatch :: "mailgun \<Rightarrow> env \<Rightarrow> resolved \<Rightarrow> signal \<Rightarrow> world \<Rightarrow> exn option \<times> world" where
  "dispatch blk E f s w =
     (case try_body blk E f s w of
        (None, w1) \<Rightarrow> (None, w1)
      | (Some e, w1) \<Rightarrow> handle_exception blk E s e w1)"

definition process_signal ::
  "mailgun \<Rightarrow> resolver \<Rightarrow> env \<Rightarrow> signal \<Rightarrow> world \<Rightarrow> exn option \<times> world" where
  "process_signal blk ev E s w =
     (case resolve_fields blk ev s of
        Inl e \<Rightarrow> (Some e, w)
      | Inr f \<Rightarrow> dispatch blk E f s w)"

section \<open>Concrete instances\<close>

text \<open>
  Inputs at which the theorems below are applied: a resolver for templates without
  expressions (every template evaluates to its own text), one that always raises, an
  environment in which every call returns, the block with one \<open>To\<close> recipient and the
  declared defaults otherwise, and a world with no connection and an empty log.
\<close>

definition literal_resolver :: resolver where
  "literal_resolver t s = Inr (PyStr t)"

definition failing_resolver :: "exn \<Rightarrow> resolver" where
  "failing_resolver e t s = Inl e"

definition env_ok :: env where
  "env_ok =
     \<lparr>open_backend = (\<lambda>d k. None), send_message = (\<lambda>m. None), close_backend = None,
      notify_host = (\<lambda>s. None)\<rparr>"

definition example_block :: mailgun where
  "example_block =
     \<lparr>version = ''0.1.0'', creds = default_mailgun_creds,
      emails = default_emails\<lparr>to_recipients := [\<lparr>recip = ''a@x.com''\<rparr>]\<rparr>,
      message = default_message, enrich = default_enrich\<rparr>"

definition example_resolved :: resolved where
  "example_resolved =
     \<lparr>res_domain = PyStr ''[[MAILGUN_DOMAIN]]'', res_key = PyStr ''[[MAILGUN_API_KEY]]'',
      res_text = ''Message text'', res_html = ''<b>Message HTML</b>'', res_subject = ''Subject'',
      res_sender = ''<no-reply@mydomain.com>'', res_to = [''a@x.com''], res_cc = [], res_bcc = []\<rparr>"

definition empty_world :: world where
  "empty_world = \<lparr>w_conn = Disconnected, w_log = []\<rparr>"

definition exception_with :: "pyval list \<Rightarrow> exn" where
  "exception_with args = \<lparr>exn_class = ''Exception'', exn_is_Exception = True, exn_args = args\<rparr>"

section \<open>The recipient loops\<close>

lemma collect_recipients_acc:
  "collect_recipients ev s acc rs = rbind (collect_recipients ev s [] rs) (\<lambda>vs. Inr (acc @ vs))"
proof (induction rs arbitrary: acc)
  case Nil
  then show ?case by simp
next
  case (Cons r rs)
  show ?case
  proof (cases "eval_string_property ev (recip r) s")
    case (Inl e)
    then show ?thesis by simp
  next
    case (Inr v)
    then show ?thesis
      using Cons.IH [of "acc @ [v]"] Cons.IH [of "[v]"]
      by (cases "collect_recipients ev s [] rs") auto
  qed
qed

lemma collect_recipients_Cons:
  "collect_recipients ev s [] (r # rs) =
     rbind (eval_string_property ev (recip r) s) (\<lambda>v.
     rbind (collect_recipients ev s [] rs) (\<lambda>vs. Inr (v # vs)))"
  by (simp add: collect_recipients_acc [of ev s "[_]"])

lemmas collect_recipients_simps = collect_recipients.simps(1) collect_recipients_Cons

text \<open>
  C7. Recipient order is preserved: a recipient loop returns a list exactly when every
  recipient's template resolves, and then its \<open>i\<close>-th address is the \<open>i\<close>-th recipient's.
\<close>

theorem collect_recipients_order:
  "collect_recipients ev s [] rs = Inr vs \<longleftrightarrow>
   list_all2 (\<lambda>r v. eval_string_property ev (recip r) s = Inr v) rs vs"
proof -
  have gen: "collect_recipients ev s acc rs = Inr ws \<longleftrightarrow>
      (\<exists>vs. ws = acc @ vs \<and> list_all2 (\<lambda>r v. eval_string_property ev (recip r) s = Inr v) rs vs)"
    for acc ws
  proof (induction rs arbitrary: acc ws)
    case Nil
    then show ?case by auto
  next
    case (Cons r rs)
    then show ?case
      by (cases "eval_string_property ev (recip r) s") (auto simp: list_all2_Cons1)
  qed
  show ?thesis
    using gen [of "[]" vs] by simp
qed

text \<open>
  C14. A recipient loop raises exactly the exception of the first recipient whose template
  fails to resolve; the recipients before it all resolved.
\<close>

theorem collect_recipients_error:
  "collect_recipients ev s [] rs = Inl e \<longleftrightarrow>
   (\<exists>xs r ys. rs = xs @ r # ys \<and> (\<forall>x\<in>set xs. \<exists>v. eval_string_property ev (recip x) s = Inr v)
      \<and> eval_string_property ev (recip r) s = Inl e)"
proof (induction rs)
  case Nil
  then show ?case by simp
next
  case (Cons r rs)
  have "collect_recipients ev s [] (r # rs) = Inl e \<longleftrightarrow>
        eval_string_property ev (recip r) s = Inl e \<or>
        ((\<exists>v. eval_string_property ev (recip r) s = Inr v) \<and> collect_recipients ev s [] rs = Inl e)"
    by (cases "eval_string_property ev (recip r) s"; cases "collect_recipients ev s [] rs")
      (simp_all del: collect_recipients.simps(2) add: collect_recipients_Cons)
  with Cons.IH show ?case
    by (simp only: ex_first_Cons)
qed

theorem collect_recipients_error_witness:
  "collect_recipients (\<lambda>t s. if t = ''b'' then Inl (exception_with [PyStr ''b'']) else Inr (PyStr t))
     Map.empty [] [\<lparr>recip = ''a''\<rparr>, \<lparr>recip = ''b''\<rparr>, \<lparr>recip = ''c''\<rparr>]
   = Inl (exception_with [PyStr ''b''])"
  by (rule collect_recipients_error [THEN iffD2],
      rule exI [of _ "[\<lparr>recip = ''a''\<rparr>]"], rule exI [of _ "\<lparr>recip = ''b''\<rparr>"],
      rule exI [of _ "[\<lparr>recip = ''c''\<rparr>]"])
    (simp add: eval_string_property_def)

section \<open>Resolving the properties\<close>

text \<open>
  C15. The properties resolve exactly when each of them does, and the resolved fields are
  their values: the domain and key as evaluated, the scalar strings cast by \<open>str()\<close>,
  and the three recipient lists.
\<close>

theorem resolve_fields_Inr_iff:
  "resolve_fields blk ev s = Inr f \<longleftrightarrow>
     ev (api_domain (creds blk)) s = Inr (res_domain f)
   \<and> ev (api_key (creds blk)) s = Inr (res_key f)
   \<and> eval_string_property ev (msg_text (message blk)) s = Inr (res_text f)
   \<and> eval_string_property ev (html (message blk)) s = Inr (res_html f)
   \<and> eval_string_property ev (subject (message blk)) s = Inr (res_subject f)
   \<and> eval_string_property ev (sender (emails blk)) s = Inr (res_sender f)
   \<and> collect_recipients ev s [] (to_recipients (emails blk)) = Inr (res_to f)
   \<and> collect_recipients ev s [] (cc_recipients (emails blk)) = Inr (res_cc f)
   \<and> collect_recipients ev s [] (bcc_recipients (emails blk)) = Inr (res_bcc f)"
  by (cases f) (auto simp: resolve_fields_def rbind_eq_Inr_iff)

section \<open>The handler, branch by branch\<close>

lemmas process_defs = process_signal_def dispatch_def try_body_def with_backend_def
  handle_exception_def call_eq

lemma resolve_fields_example:
  "resolve_fields example_block literal_resolver s = Inr example_resolved"
  by (simp add: resolve_fields_def example_block_def literal_resolver_def eval_string_property_def
      default_mailgun_creds_def default_emails_def default_message_def example_resolved_def)

lemma enrich_example_block [simp]: "enrich example_block = default_enrich"
  by (simp add: example_block_def)

lemma resolve_fields_failing:
  "resolve_fields blk (failing_resolver e) s = Inl e"
  by (simp add: resolve_fields_def failing_resolver_def)

text \<open>The failure signal never coincides with the success signal: they differ at \<open>error\<close>.\<close>

lemma failure_data_neq_success_data: "map_of (failure_data a) \<noteq> map_of success_data"
proof
  assume "map_of (failure_data a) = map_of success_data"
  then have "map_of (failure_data a) ''error'' = map_of success_data ''error''"
    by simp
  then show False
    by (simp add: failure_data_def success_data_def)
qed

text \<open>The run of the block of the instances above, every call returning.\<close>

lemma process_signal_example:
  "process_signal example_block literal_resolver env_ok s empty_world =
    (None,
     \<lparr>w_conn = Disconnected,
      w_log =
        [(Open (PyStr ''[[MAILGUN_DOMAIN]]'') (PyStr ''[[MAILGUN_API_KEY]]''), None),
         (Send (build_message example_resolved), None),
         (Close, None),
         (Notify (map_of success_data), None)]\<rparr>)"
  by (simp add: process_defs resolve_fields_example env_ok_def empty_world_def default_enrich_def get_output_signal_def example_resolved_def)

text \<open>
  What one run adds to the log, counted: one delivered notification when the handler
  returns, and one send when the properties resolve and the backend opens.
\<close>

lemma process_signal_log_counts:
  assumes "process_signal blk ev E s w = (r, w')"
  shows "length (notified (w_log w')) = length (notified (w_log w)) + (if r = None then 1 else 0)
    \<and> length (filter is_send (w_log w')) = length (filter is_send (w_log w)) +
        (case resolve_fields blk ev s of
           Inl _ \<Rightarrow> 0
         | Inr f \<Rightarrow> if open_backend E (res_domain f) (res_key f) = None then 1 else 0)"
  using assms
  by (auto simp: process_defs split: sum.splits option.splits if_splits list.splits)

text \<open>
  C1. When the properties resolve and every call returns, the handler opens the backend
  with the resolved domain and key, sends exactly the message built from the resolved
  fields (subject, text, html, sender, and the To, CC and BCC lists, empty ones
  included), leaves the \<open>with\<close> block (releasing the connection), notifies the success
  signal, and returns.
\<close>

theorem process_signal_success:
  assumes res: "resolve_fields blk ev s = Inr f"
    and opn: "open_backend E (res_domain f) (res_key f) = None"
    and sent: "send_message E
      \<lparr>fm_subject = res_subject f, fm_text = res_text f, fm_html = res_html f,
       fm_from_address = res_sender f, fm_to = res_to f, fm_cc = res_cc f, fm_bcc = res_bcc f\<rparr> = None"
    and cls: "close_backend E = None"
    and ntf: "notify_host E (get_output_signal (enrich blk) success_data s) = None"
  shows "process_signal blk ev E s w =
    (None,
     \<lparr>w_conn = Disconnected,
      w_log = w_log w @
        [(Open (res_domain f) (res_key f), None),
         (Send \<lparr>fm_subject = res_subject f, fm_text = res_text f, fm_html = res_html f,
                fm_from_address = res_sender f, fm_to = res_to f, fm_cc = res_cc f,
                fm_bcc = res_bcc f\<rparr>, None),
         (Close, None),
         (Notify (get_output_signal (enrich blk) success_data s), None)]\<rparr>)"
  using assms by (simp add: process_defs build_message_def)

theorem process_signal_success_witness:
  "process_signal example_block literal_resolver env_ok Map.empty empty_world =
    (None,
     \<lparr>w_conn = Disconnected,
      w_log =
        [(Open (PyStr ''[[MAILGUN_DOMAIN]]'') (PyStr ''[[MAILGUN_API_KEY]]''), None),
         (Send \<lparr>fm_subject = ''Subject'', fm_text = ''Message text'', fm_html = ''<b>Message HTML</b>'',
                fm_from_address = ''<no-reply@mydomain.com>'', fm_to = [''a@x.com''], fm_cc = [],
                fm_bcc = []\<rparr>, None),
         (Close, None),
         (Notify (get_output_signal default_enrich success_data Map.empty), None)]\<rparr>)"
  using process_signal_success [OF resolve_fields_example, of env_ok Map.empty empty_world]
  by (simp add: env_ok_def example_resolved_def empty_world_def example_block_def)

text \<open>
  C2. Every run notifies the host of at most one signal, the success signal or a failure
  signal built from the result dict and the incoming signal: exactly one when the handler
  returns, none when it raises to the host.
\<close>

theorem process_signal_notifies_once:
  assumes "process_signal blk ev E s w = (r, w')"
  shows "\<exists>ns. notified (w_log w') = notified (w_log w) @ ns
           \<and> length ns = (if r = None then 1 else 0)
           \<and> (\<forall>n\<in>set ns. n = get_output_signal (enrich blk) success_data s
                 \<or> (\<exists>a. n = get_output_signal (enrich blk) (failure_data a) s))"
  using assms
  by (auto simp: process_defs split: sum.splits option.splits if_splits list.splits)

theorem process_signal_notifies_once_witness:
  "\<exists>ns. notified
          [(Open (PyStr ''[[MAILGUN_DOMAIN]]'') (PyStr ''[[MAILGUN_API_KEY]]''), None),
           (Send (build_message example_resolved), None),
           (Close, None),
           (Notify (map_of success_data), None)] = ns
       \<and> length ns = 1
       \<and> (\<forall>n\<in>set ns. n = get_output_signal default_enrich success_data Map.empty
             \<or> (\<exists>a. n = get_output_signal default_enrich (failure_data a) Map.empty))"
  using process_signal_notifies_once [OF process_signal_example [of "Map.empty"]]
  by (simp add: empty_world_def)

text \<open>
  C3. A property that fails to resolve (lines 33--50 run outside the \<open>try\<close>) makes the
  handler raise that exception to the host before any call: no backend connection, no
  send, and no signal at all, where the spec (section 7) says every failure is reported
  as an \<open>error: 1\<close> signal.
\<close>

theorem process_signal_resolution_error:
  "resolve_fields blk ev s = Inl e \<Longrightarrow> process_signal blk ev E s w = (Some e, w)"
  by (simp add: process_signal_def)

theorem process_signal_resolution_error_witness:
  "resolve_fields example_block (failing_resolver (exception_with [PyStr ''no such field''])) Map.empty
     = Inl (exception_with [PyStr ''no such field''])
   \<and> process_signal example_block (failing_resolver (exception_with [PyStr ''no such field'']))
       env_ok Map.empty empty_world = (Some (exception_with [PyStr ''no such field'']), empty_world)"
  using process_signal_resolution_error [OF resolve_fields_failing]
  by (simp add: resolve_fields_failing)

text \<open>
  C4. When the send raises an \<open>Exception\<close> whose first argument is \<open>a\<close>, the \<open>with\<close>
  block still releases the connection, the handler notifies the failure signal
  \<open>{error: 1, message: a}\<close>, and it returns normally.
\<close>

theorem process_signal_send_failure:
  assumes res: "resolve_fields blk ev s = Inr f"
    and opn: "open_backend E (res_domain f) (res_key f) = None"
    and fail: "send_message E (build_message f) = Some e"
    and exc: "exn_is_Exception e"
    and args: "exn_args e = a # as"
    and cls: "close_backend E = None"
    and ntf: "notify_host E (get_output_signal (enrich blk) (failure_data a) s) = None"
  shows "process_signal blk ev E s w =
    (None,
     \<lparr>w_conn = Disconnected,
      w_log = w_log w @
        [(Open (res_domain f) (res_key f), None),
         (Send (build_message f), Some e),
         (Close, None),
         (Notify (get_output_signal (enrich blk) (failure_data a) s), None)]\<rparr>)"
  using assms by (simp add: process_defs)

theorem process_signal_send_failure_witness:
  "process_signal example_block literal_resolver
     (env_ok\<lparr>send_message := (\<lambda>m. Some (exception_with [PyStr ''auth failed'']))\<rparr>)
     Map.empty empty_world =
    (None,
     \<lparr>w_conn = Disconnected,
      w_log =
        [(Open (PyStr ''[[MAILGUN_DOMAIN]]'') (PyStr ''[[MAILGUN_API_KEY]]''), None),
         (Send (build_message example_resolved), Some (exception_with [PyStr ''auth failed''])),
         (Close, None),
         (Notify (get_output_signal default_enrich (failure_data (PyStr ''auth failed'')) Map.empty),
          None)]\<rparr>)"
  using process_signal_send_failure [OF resolve_fields_example,
      of "env_ok\<lparr>send_message := (\<lambda>m. Some (exception_with [PyStr ''auth failed'']))\<rparr>"
         "exception_with [PyStr ''auth failed'']" "PyStr ''auth failed''" "[]" "Map.empty" empty_world]
  by (simp add: env_ok_def example_resolved_def empty_world_def exception_with_def)

text \<open>
  C5. The backend connection is released on every path: a run that starts with no open
  connection ends with none, whichever call raised.
\<close>

theorem process_signal_releases_connection:
  assumes "process_signal blk ev E s w = (r, w')"
    and "w_conn w = Disconnected"
  shows "w_conn w' = Disconnected"
  using assms
  by (auto simp: process_defs split: sum.splits option.splits if_splits list.splits)

theorem process_signal_releases_connection_witness:
  "w_conn empty_world = Disconnected \<and>
   w_conn (snd (process_signal example_block literal_resolver env_ok Map.empty empty_world)) = Disconnected"
  using process_signal_releases_connection [OF process_signal_example]
  by (simp only: process_signal_example snd_conv) (simp add: empty_world_def)

text \<open>
  C6. The calls a run issues follow the backend's protocol from a released connection back
  to a released one: the backend is opened at most once and before anything is sent, the
  message is sent only on the open connection, and it is closed after the send.
\<close>

theorem process_signal_conn_protocol:
  assumes "process_signal blk ev E s w = (r, w')"
  shows "\<exists>L. w_log w' = w_log w @ L \<and> conn_run Disconnected L Disconnected"
  using assms
  by (auto simp: process_defs conn_step_simps
      split: sum.splits option.splits if_splits list.splits dest: sym)

theorem process_signal_conn_protocol_witness:
  "\<exists>L. [(Open (PyStr ''[[MAILGUN_DOMAIN]]'') (PyStr ''[[MAILGUN_API_KEY]]''), None),
        (Send (build_message example_resolved), None),
        (Close, None),
        (Notify (map_of success_data), None)] = L
     \<and> conn_run Disconnected L Disconnected"
  using process_signal_conn_protocol [OF process_signal_example [of "Map.empty"]]
  by (simp add: empty_world_def)

text \<open>
  C9. A run issues exactly one send when the properties resolve and the backend opens,
  and none otherwise: there is no retry.
\<close>

theorem process_signal_sends_once:
  assumes "process_signal blk ev E s w = (r, w')"
  shows "length (filter is_send (w_log w')) = length (filter is_send (w_log w)) +
    (case resolve_fields blk ev s of
       Inl _ \<Rightarrow> 0
     | Inr f \<Rightarrow> if open_backend E (res_domain f) (res_key f) = None then 1 else 0)"
  using assms
  by (auto simp: process_defs split: sum.splits option.splits if_splits list.splits)

theorem process_signal_sends_once_witness:
  "length (filter is_send
     [(Open (PyStr ''[[MAILGUN_DOMAIN]]'') (PyStr ''[[MAILGUN_API_KEY]]''), None),
      (Send (build_message example_resolved), None),
      (Close, None),
      (Notify (map_of success_data), None)]) = 1"
  using process_signal_sends_once [OF process_signal_example [of "Map.empty"]]
  by (simp add: empty_world_def resolve_fields_example env_ok_def example_resolved_def)

text \<open>
  C10. An exception that does not derive from \<open>Exception\<close> (\<open>KeyboardInterrupt\<close>,
  \<open>SystemExit\<close>) raised by the send is not caught by line 65: the connection is still
  released, no signal is notified, and the exception reaches the host.
\<close>

theorem process_signal_uncaught_base_exception:
  assumes res: "resolve_fields blk ev s = Inr f"
    and opn: "open_backend E (res_domain f) (res_key f) = None"
    and fail: "send_message E (build_message f) = Some e"
    and base: "\<not> exn_is_Exception e"
    and cls: "close_backend E = None"
  shows "process_signal blk ev E s w =
    (Some e,
     \<lparr>w_conn = Disconnected,
      w_log = w_log w @
        [(Open (res_domain f) (res_key f), None), (Send (build_message f), Some e), (Close, None)]\<rparr>)"
  using assms by (simp add: process_defs)

theorem process_signal_uncaught_base_exception_witness:
  "process_signal example_block literal_resolver
     (env_ok\<lparr>send_message := (\<lambda>m. Some \<lparr>exn_class = ''KeyboardInterrupt'', exn_is_Exception = False,
                                         exn_args = []\<rparr>)\<rparr>)
     Map.empty empty_world =
    (Some \<lparr>exn_class = ''KeyboardInterrupt'', exn_is_Exception = False, exn_args = []\<rparr>,
     \<lparr>w_conn = Disconnected,
      w_log =
        [(Open (PyStr ''[[MAILGUN_DOMAIN]]'') (PyStr ''[[MAILGUN_API_KEY]]''), None),
         (Send (build_message example_resolved),
          Some \<lparr>exn_class = ''KeyboardInterrupt'', exn_is_Exception = False, exn_args = []\<rparr>),
         (Close, None)]\<rparr>)"
  using process_signal_uncaught_base_exception [OF resolve_fields_example,
      of "env_ok\<lparr>send_message := (\<lambda>m. Some \<lparr>exn_class = ''KeyboardInterrupt'',
                                               exn_is_Exception = False, exn_args = []\<rparr>)\<rparr>"]
  by (simp add: env_ok_def example_resolved_def empty_world_def)

text \<open>
  C11. When any step of the \<open>try\<close> block (opening the backend, sending, the backend's
  \<open>__exit__\<close>, or notifying the success signal) raises an \<open>Exception\<close> with no
  arguments, \<open>e.args[0]\<close> on line 66 raises \<open>IndexError\<close> inside the handler: the
  \<open>IndexError\<close> reaches the host instead of the original exception, and no result
  signal is delivered.
\<close>

theorem process_signal_empty_args:
  assumes res: "resolve_fields blk ev s = Inr f"
    and raised: "try_body blk E f s w = (Some e, w1)"
    and exc: "exn_is_Exception e"
    and args: "exn_args e = []"
  shows "process_signal blk ev E s w = (Some index_error, w1)
    \<and> notified (w_log w1) = notified (w_log w)"
proof
  from res raised exc args show "process_signal blk ev E s w = (Some index_error, w1)"
    by (simp add: process_signal_def dispatch_def handle_exception_def)
  from raised show "notified (w_log w1) = notified (w_log w)"
    by (auto simp: try_body_def with_backend_def call_eq split: prod.splits option.splits)
qed

theorem process_signal_empty_args_witness:
  "process_signal example_block literal_resolver
     (env_ok\<lparr>send_message := (\<lambda>m. Some (exception_with []))\<rparr>) Map.empty empty_world =
    (Some index_error,
     \<lparr>w_conn = Disconnected,
      w_log = [(Open (PyStr ''[[MAILGUN_DOMAIN]]'') (PyStr ''[[MAILGUN_API_KEY]]''), None),
               (Send (build_message example_resolved), Some (exception_with [])),
               (Close, None)]\<rparr>)
   \<and> notified [(Open (PyStr ''[[MAILGUN_DOMAIN]]'') (PyStr ''[[MAILGUN_API_KEY]]''), None),
               (Send (build_message example_resolved), Some (exception_with [])),
               (Close, None)] = []"
proof -
  have "try_body example_block (env_ok\<lparr>send_message := (\<lambda>m. Some (exception_with []))\<rparr>)
          example_resolved Map.empty empty_world =
        (Some (exception_with []),
         \<lparr>w_conn = Disconnected,
          w_log = [(Open (PyStr ''[[MAILGUN_DOMAIN]]'') (PyStr ''[[MAILGUN_API_KEY]]''), None),
                   (Send (build_message example_resolved), Some (exception_with [])),
                   (Close, None)]\<rparr>)"
    by (simp add: try_body_def with_backend_def call_eq env_ok_def empty_world_def
        example_resolved_def)
  from process_signal_empty_args [OF resolve_fields_example this] show ?thesis
    by (simp add: exception_with_def empty_world_def)
qed

text \<open>
  C16. When the backend cannot be opened and raises an \<open>Exception\<close> with first
  argument \<open>a\<close>, nothing is sent, \<open>__exit__\<close> is not called, the host is notified of
  \<open>{error: 1, message: a}\<close> and the handler returns.
\<close>

theorem process_signal_open_failure:
  assumes res: "resolve_fields blk ev s = Inr f"
    and fail: "open_backend E (res_domain f) (res_key f) = Some e"
    and exc: "exn_is_Exception e"
    and args: "exn_args e = a # as"
    and ntf: "notify_host E (get_output_signal (enrich blk) (failure_data a) s) = None"
  shows "process_signal blk ev E s w =
    (None,
     \<lparr>w_conn = w_conn w,
      w_log = w_log w @
        [(Open (res_domain f) (res_key f), Some e),
         (Notify (get_output_signal (enrich blk) (failure_data a) s), None)]\<rparr>)"
  using assms by (simp add: process_defs)

theorem process_signal_open_failure_witness:
  "process_signal example_block literal_resolver
     (env_ok\<lparr>open_backend := (\<lambda>d k. Some (exception_with [PyStr ''unknown domain'']))\<rparr>)
     Map.empty empty_world =
    (None,
     \<lparr>w_conn = Disconnected,
      w_log =
        [(Open (PyStr ''[[MAILGUN_DOMAIN]]'') (PyStr ''[[MAILGUN_API_KEY]]''),
          Some (exception_with [PyStr ''unknown domain''])),
         (Notify (get_output_signal default_enrich (failure_data (PyStr ''unknown domain'')) Map.empty),
          None)]\<rparr>)"
  using process_signal_open_failure [OF resolve_fields_example,
      of "env_ok\<lparr>open_backend := (\<lambda>d k. Some (exception_with [PyStr ''unknown domain'']))\<rparr>"
         "exception_with [PyStr ''unknown domain'']" "PyStr ''unknown domain''" "[]" "Map.empty" empty_world]
  by (simp add: env_ok_def example_resolved_def empty_world_def exception_with_def)

text \<open>
  C17. The success notification is inside the \<open>try\<close>: when it raises an
  \<open>Exception\<close>, the handler notifies a failure signal for a message the backend has
  accepted, so the host is called twice and receives only \<open>{error: 1, \<dots>}\<close>.
\<close>

theorem process_signal_notify_failure:
  assumes res: "resolve_fields blk ev s = Inr f"
    and opn: "open_backend E (res_domain f) (res_key f) = None"
    and sent: "send_message E (build_message f) = None"
    and cls: "close_backend E = None"
    and nfail: "notify_host E (get_output_signal (enrich blk) success_data s) = Some e"
    and exc: "exn_is_Exception e"
    and args: "exn_args e = a # as"
    and ntf: "notify_host E (get_output_signal (enrich blk) (failure_data a) s) = None"
  shows "process_signal blk ev E s w =
    (None,
     \<lparr>w_conn = Disconnected,
      w_log = w_log w @
        [(Open (res_domain f) (res_key f), None),
         (Send (build_message f), None),
         (Close, None),
         (Notify (get_output_signal (enrich blk) success_data s), Some e),
         (Notify (get_output_signal (enrich blk) (failure_data a) s), None)]\<rparr>)"
  using assms by (simp add: process_defs)

theorem process_signal_notify_failure_witness:
  "process_signal example_block literal_resolver
     (env_ok\<lparr>notify_host := (\<lambda>sig. if sig = map_of success_data
                                     then Some (exception_with [PyStr ''queue full'']) else None)\<rparr>)
     Map.empty empty_world =
    (None,
     \<lparr>w_conn = Disconnected,
      w_log =
        [(Open (PyStr ''[[MAILGUN_DOMAIN]]'') (PyStr ''[[MAILGUN_API_KEY]]''), None),
         (Send (build_message example_resolved), None),
         (Close, None),
         (Notify (map_of success_data), Some (exception_with [PyStr ''queue full''])),
         (Notify (map_of (failure_data (PyStr ''queue full''))), None)]\<rparr>)"
  using process_signal_notify_failure [OF resolve_fields_example,
      of "env_ok\<lparr>notify_host := (\<lambda>sig. if sig = map_of success_data
                                        then Some (exception_with [PyStr ''queue full'']) else None)\<rparr>"
         "Map.empty" "exception_with [PyStr ''queue full'']" "PyStr ''queue full''" "[]" empty_world]
  by (simp add: env_ok_def empty_world_def exception_with_def default_enrich_def get_output_signal_def
      example_resolved_def failure_data_neq_success_data)

end
