(* ===== verification/Template.thy ===== *)
theory Template
  imports Host
begin

text \<open>
  The host's template language, as far as the block's properties use it: text with
  embedded expressions \<open>{{ $name }}\<close> that read the signal's attribute \<open>name\<close> (the
  default recipient is \<open>{{ $email }}\<close>). nio is not under src/; this is a model from the
  spec (section 9: \<open>resolve(template, context) \<rightarrow> value | fails\<close>) of the subset of its
  expression syntax that names one attribute. A template that is a single expression
  evaluates to the attribute's value itself; any other template to the concatenation of
  its text and the \<open>str()\<close> of its attributes. A missing attribute raises
  \<open>AttributeError\<close>; an unclosed or unsupported expression raises \<open>SyntaxError\<close>.
  \<open>nio_resolver\<close> is this evaluator as a \<open>resolver\<close>, so that the handler runs on real
  templates; \<open>render\<close> prints pieces back to a template, and parsing a rendered
  well-formed template gives its pieces back.
\<close>

datatype tpiece = TLit string | TAttr string

section \<open>Parsing\<close>

text \<open>The expression text up to the closing \<open>}}\<close>, and the text after it.\<close>

fun take_expr :: "string \<Rightarrow> string \<Rightarrow> (string \<times> string) option" where
  "take_expr acc [] = None"
| "take_expr acc [c] = None"
| "take_expr acc (c # d # rest) =
     (if c = CHR ''}'' \<and> d = CHR ''}'' then Some (rev acc, rest)
      else take_expr (c # acc) (d # rest))"

definition is_ident_char :: "char \<Rightarrow> bool" where
  "is_ident_char c =
     (let n = of_char c :: nat
      in (97 \<le> n \<and> n \<le> 122) \<or> (65 \<le> n \<and> n \<le> 90) \<or> (48 \<le> n \<and> n \<le> 57) \<or> n = 95)"

definition strip_spaces :: "string \<Rightarrow> string" where
  "strip_spaces e = rev (dropWhile (\<lambda>c. c = CHR '' '') (rev (dropWhile (\<lambda>c. c = CHR '' '') e)))"

definition parse_attr :: "string \<Rightarrow> string option" where
  "parse_attr e =
     (case strip_spaces e of
        c # n \<Rightarrow> if c = CHR ''$'' \<and> n \<noteq> [] \<and> list_all is_ident_char n then Some n else None
      | [] \<Rightarrow> None)"

definition lit_piece :: "string \<Rightarrow> tpiece list \<Rightarrow> tpiece list" where
  "lit_piece lit ps = (if lit = [] then ps else TLit lit # ps)"

lemma take_expr_shorter: "take_expr acc s = Some (e, r) \<Longrightarrow> length r < length s"
  by (induction acc s rule: take_expr.induct) (auto split: if_splits)

function parse_tpl :: "string \<Rightarrow> string \<Rightarrow> tpiece list option" where
  "parse_tpl lit [] = Some (lit_piece lit [])"
| "parse_tpl lit [c] = Some (lit_piece (lit @ [c]) [])"
| "parse_tpl lit (c # d # rest) =
     (if c = CHR ''{'' \<and> d = CHR ''{'' then
        (case take_expr [] rest of
           None \<Rightarrow> None
         | Some (e, rest') \<Rightarrow>
             (case parse_attr e of
                None \<Rightarrow> None
              | Some n \<Rightarrow> map_option (\<lambda>ps. lit_piece lit (TAttr n # ps)) (parse_tpl [] rest')))
      else parse_tpl (lit @ [c]) (d # rest))"
  by pat_completeness auto
termination
  by (relation "measure (\<lambda>(lit, s). length s)") (auto dest: take_expr_shorter)

definition parse_template :: "string \<Rightarrow> tpiece list option" where
  "parse_template t = parse_tpl [] t"

section \<open>Evaluation\<close>

definition attribute_error :: "string \<Rightarrow> exn" where
  "attribute_error n =
     \<lparr>exn_class = ''AttributeError'', exn_is_Exception = True, exn_args = [PyStr n]\<rparr>"

definition syntax_error :: "string \<Rightarrow> exn" where
  "syntax_error t = \<lparr>exn_class = ''SyntaxError'', exn_is_Exception = True, exn_args = [PyStr t]\<rparr>"

fun eval_piece :: "signal \<Rightarrow> tpiece \<Rightarrow> pyval result" where
  "eval_piece s (TLit t) = Inr (PyStr t)"
| "eval_piece s (TAttr n) = (case s n of None \<Rightarrow> Inl (attribute_error n) | Some v \<Rightarrow> Inr v)"

fun eval_concat :: "signal \<Rightarrow> tpiece list \<Rightarrow> string result" where
  "eval_concat s [] = Inr []"
| "eval_concat s (p # ps) =
     rbind (eval_piece s p) (\<lambda>v. rbind (eval_concat s ps) (\<lambda>t. Inr (py_str v @ t)))"

definition eval_pieces :: "signal \<Rightarrow> tpiece list \<Rightarrow> pyval result" where
  "eval_pieces s ps =
     (case ps of
        [TAttr n] \<Rightarrow> eval_piece s (TAttr n)
      | _ \<Rightarrow> rbind (eval_concat s ps) (\<lambda>t. Inr (PyStr t)))"

definition nio_resolver :: resolver where
  "nio_resolver t s =
     (case parse_template t of None \<Rightarrow> Inl (syntax_error t) | Some ps \<Rightarrow> eval_pieces s ps)"

section \<open>Printing\<close>

fun render :: "tpiece list \<Rightarrow> string" where
  "render [] = []"
| "render (TLit t # ps) = t @ render ps"
| "render (TAttr n # ps) = ''{{ $'' @ n @ '' }}'' @ render ps"

section \<open>Round trip\<close>

text \<open>
  A well-formed list of pieces: text pieces are non-empty, contain no brace \<open>{\<close> and
  are never adjacent (the parser merges adjacent text); attribute names are non-empty
  identifiers. \<open>prepend_lit\<close> adds pending text in front, as the parser does.
\<close>

fun wf_pieces :: "tpiece list \<Rightarrow> bool" where
  "wf_pieces [] = True"
| "wf_pieces (TLit t # ps) =
     (t \<noteq> [] \<and> CHR ''{'' \<notin> set t \<and> (case ps of TLit _ # _ \<Rightarrow> False | _ \<Rightarrow> True) \<and> wf_pieces ps)"
| "wf_pieces (TAttr n # ps) = (n \<noteq> [] \<and> list_all is_ident_char n \<and> wf_pieces ps)"

definition prepend_lit :: "string \<Rightarrow> tpiece list \<Rightarrow> tpiece list" where
  "prepend_lit lit ps =
     (if lit = [] then ps
      else case ps of TLit t # ps' \<Rightarrow> TLit (lit @ t) # ps' | _ \<Rightarrow> TLit lit # ps)"

lemma take_expr_close:
  "CHR ''}'' \<notin> set x \<Longrightarrow> take_expr acc (x @ CHR ''}'' # CHR ''}'' # r) = Some (rev acc @ x, r)"
proof (induction x arbitrary: acc)
  case Nil
  then show ?case by simp
next
  case (Cons c x)
  then show ?case
    by (cases "x @ CHR ''}'' # CHR ''}'' # r") auto
qed

lemma ident_char_not_special:
  "is_ident_char c \<Longrightarrow> c \<noteq> CHR '' '' \<and> c \<noteq> CHR ''}'' \<and> c \<noteq> CHR ''{'' \<and> c \<noteq> CHR ''$''"
  by (auto simp: is_ident_char_def)

lemma parse_attr_render:
  assumes "n \<noteq> []" "list_all is_ident_char n"
  shows "parse_attr ('' $'' @ n @ '' '') = Some n"
proof -
  have nsp: "\<forall>c\<in>set n. c \<noteq> CHR '' ''"
    using assms(2) ident_char_not_special by (auto simp: list_all_iff)
  from assms(1) obtain c cs where rn: "rev n = c # cs"
    by (cases "rev n") auto
  then have "c \<in> set n"
    by (metis list.set_intros(1) set_rev)
  with nsp rn have "dropWhile (\<lambda>c. c = CHR '' '') (rev n @ ''$'') = rev n @ ''$''"
    by simp
  then have "strip_spaces ('' $'' @ n @ '' '') = CHR ''$'' # n"
    by (simp add: strip_spaces_def)
  with assms show ?thesis
    by (simp add: parse_attr_def)
qed

lemma parse_tpl_lit:
  "CHR ''{'' \<notin> set t \<Longrightarrow> parse_tpl lit (t @ s) = parse_tpl (lit @ t) s"
proof (induction t arbitrary: lit)
  case Nil
  then show ?case by simp
next
  case (Cons c t)
  then show ?case
    by (cases "t @ s") auto
qed

lemma parse_tpl_render:
  "wf_pieces ps \<Longrightarrow> parse_tpl lit (render ps) = Some (prepend_lit lit ps)"
proof (induction ps arbitrary: lit rule: wf_pieces.induct)
  case 1
  then show ?case by (simp add: lit_piece_def prepend_lit_def)
next
  case (2 t ps)
  then have "parse_tpl lit (render (TLit t # ps)) = Some (prepend_lit (lit @ t) ps)"
    by (simp add: parse_tpl_lit)
  with "2.prems" show ?case
    by (auto simp: prepend_lit_def split: list.splits tpiece.splits)
next
  case (3 n ps)
  have nb: "CHR ''}'' \<notin> set ('' $'' @ n @ '' '')"
    using "3.prems" ident_char_not_special by (auto simp: list_all_iff)
  have pa: "parse_attr ('' $'' @ n @ '' '') = Some n"
    by (rule parse_attr_render) (use "3.prems" in auto)
  from "3.prems" "3.IH" [of "[]"] take_expr_close [OF nb, of "[]" "render ps"] pa show ?case
    by (simp add: parse_attr_render lit_piece_def prepend_lit_def)
qed

theorem parse_template_render: "wf_pieces ps \<Longrightarrow> parse_template (render ps) = Some ps"
  by (simp add: parse_template_def parse_tpl_render prepend_lit_def)

end
