(* ===== verification/Reporting.thy ===== *)
theory Reporting
  imports MailGun Template
begin

text \<open>
  What the host receives from one call of \<open>process_signals\<close>
  (src/mailgun_block.py, lines 32-66): the shape of every result signal the handler
  notifies, how the block's enrichment settings (\<open>EnrichSignals\<close>) place the result
  in the incoming signal, how many collaborator calls one signal can cause, and that
  recipient templates written as \<open>{{ $name }}\<close> resolve, through the host's template
  evaluator of theory Template, to the signal's attribute values in order.
\<close>

section \<open>The result record\<close>

text \<open>
  The result the handler builds (line 63 or line 66): exactly the keys \<open>error\<close> and
  \<open>message\<close>, in this order, with error code 0 or 1.
\<close>

definition result_typed :: "(string \<times> pyval) list \<Rightarrow> bool" where
  "result_typed d \<longleftrightarrow>
     map fst d = [''error'', ''message''] \<and>
     (map_of d ''error'' = Some (PyInt 0) \<or> map_of d ''error'' = Some (PyInt 1))"

lemma set_notified_of_Notify [simp]:
  "set (notified_of (Notify x, r)) = (if r = None then {x} else {})"
  by (cases r) simp_all

lemma process_signal_notified_results:
  assumes "process_signal blk ev E s w = (r, w')"
  shows "\<exists>ns. notified (w_log w') = notified (w_log w) @ ns
    \<and> (\<forall>n\<in>set ns. n = get_output_signal (enrich blk) success_data s
                       \<or> (\<exists>a. n = get_output_signal (enrich blk) (failure_data a) s))"
  using assms
  by (auto simp: process_defs split: sum.splits option.splits if_splits list.splits)

text \<open>How \<open>get_output_signal\<close> places a well-typed result record, in each mode.\<close>

lemma get_output_signal_typed:
  assumes "result_typed d"
  shows "(exclude_existing cfg \<longrightarrow> dom (get_output_signal cfg d s) = {''error'', ''message''})
    \<and> (\<not> exclude_existing cfg \<longrightarrow> enrich_field cfg = [] \<longrightarrow>
         (\<forall>k. k \<noteq> ''error'' \<and> k \<noteq> ''message'' \<longrightarrow> get_output_signal cfg d s k = s k)
         \<and> get_output_signal cfg d s ''error'' \<noteq> None)
    \<and> (\<not> exclude_existing cfg \<longrightarrow> enrich_field cfg \<noteq> [] \<longrightarrow>
         (\<forall>k. k \<noteq> enrich_field cfg \<longrightarrow> get_output_signal cfg d s k = s k)
         \<and> get_output_signal cfg d s (enrich_field cfg) = Some (PyDict d))"
proof -
  from assms have keys: "map fst d = [''error'', ''message'']"
    by (simp add: result_typed_def)
  have fs: "fst ` set d = {''error'', ''message''}"
    using arg_cong [OF keys, of set] by simp
  have dm: "dom (map_of d) = {''error'', ''message''}"
    by (simp add: dom_map_of_conv_image_fst fs)
  from assms have er: "map_of d ''error'' \<noteq> None"
    by (auto simp: result_typed_def)
  have other: "map_of d k = None" if "k \<noteq> ''error'' \<and> k \<noteq> ''message''" for k
    using that by (simp add: map_of_eq_None_iff fs)
  show ?thesis
  proof (intro conjI impI allI)
    assume "exclude_existing cfg"
    then show "dom (get_output_signal cfg d s) = {''error'', ''message''}"
      by (simp add: get_output_signal_def dm)
  next
    fix k
    assume "\<not> exclude_existing cfg" "enrich_field cfg = []" "k \<noteq> ''error'' \<and> k \<noteq> ''message''"
    then show "get_output_signal cfg d s k = s k"
      by (simp add: get_output_signal_def map_add_def other)
  next
    assume "\<not> exclude_existing cfg" "enrich_field cfg = []"
    then show "get_output_signal cfg d s ''error'' \<noteq> None"
      using er by (auto simp: get_output_signal_def map_add_def)
  next
    fix k
    assume "\<not> exclude_existing cfg" "enrich_field cfg \<noteq> []" "k \<noteq> enrich_field cfg"
    then show "get_output_signal cfg d s k = s k"
      by (simp add: get_output_signal_def)
  next
    assume "\<not> exclude_existing cfg" "enrich_field cfg \<noteq> []"
    then show "get_output_signal cfg d s (enrich_field cfg) = Some (PyDict d)"
      by (simp add: get_output_signal_def)
  qed
qed

text \<open>
  C18. Every signal the handler notifies during one call is the incoming signal
  enriched, as the block's \<open>EnrichSignals\<close> settings say, with a result record that
  has exactly the keys \<open>error\<close> and \<open>message\<close> and error code 0 or 1.
\<close>

theorem process_signal_result_typed:
  assumes "process_signal blk ev E s w = (r, w')"
  shows "\<forall>n\<in>set (drop (length (notified (w_log w))) (notified (w_log w'))).
           \<exists>d. result_typed d \<and> n = get_output_signal (enrich blk) d s"
proof -
  obtain ns where ns: "notified (w_log w') = notified (w_log w) @ ns"
    and res: "\<forall>n\<in>set ns. n = get_output_signal (enrich blk) success_data s
                       \<or> (\<exists>a. n = get_output_signal (enrich blk) (failure_data a) s)"
    using process_signal_notified_results [OF assms] by blast
  have "result_typed success_data" "\<And>a. result_typed (failure_data a)"
    by (simp_all add: result_typed_def success_data_def failure_data_def)
  with ns res show ?thesis
    by auto
qed

theorem process_signal_result_typed_witness:
  "\<exists>d. result_typed d \<and> map_of success_data = get_output_signal default_enrich d Map.empty"
  using process_signal_result_typed [OF process_signal_example [of "Map.empty"]]
  by (simp add: empty_world_def)

section \<open>Enrichment modes\<close>

text \<open>
  C19. With \<open>exclude_existing\<close> the notified signal holds only \<open>error\<close> and
  \<open>message\<close>; otherwise every attribute of the incoming signal is kept, except the
  result's keys when merged at the top level, or the configured \<open>results_field\<close>,
  which then holds the result record as a dictionary.
\<close>

theorem process_signal_enrichment:
  assumes "process_signal blk ev E s w = (r, w')"
    and "n \<in> set (drop (length (notified (w_log w))) (notified (w_log w')))"
  shows "(exclude_existing (enrich blk) \<longrightarrow> dom n = {''error'', ''message''})
    \<and> (\<not> exclude_existing (enrich blk) \<longrightarrow> enrich_field (enrich blk) = [] \<longrightarrow>
         (\<forall>k. k \<noteq> ''error'' \<and> k \<noteq> ''message'' \<longrightarrow> n k = s k) \<and> n ''error'' \<noteq> None)
    \<and> (\<not> exclude_existing (enrich blk) \<longrightarrow> enrich_field (enrich blk) \<noteq> [] \<longrightarrow>
         (\<forall>k. k \<noteq> enrich_field (enrich blk) \<longrightarrow> n k = s k)
         \<and> (\<exists>d. result_typed d \<and> n (enrich_field (enrich blk)) = Some (PyDict d)))"
proof -
  have "\<exists>ns. notified (w_log w') = notified (w_log w) @ ns
    \<and> (\<forall>n\<in>set ns. n = get_output_signal (enrich blk) success_data s
                       \<or> (\<exists>a. n = get_output_signal (enrich blk) (failure_data a) s))"
    using assms(1)
    by (auto simp: process_defs split: sum.splits option.splits if_splits list.splits)
  then obtain ns where ns: "notified (w_log w') = notified (w_log w) @ ns"
    and res: "\<forall>n\<in>set ns. n = get_output_signal (enrich blk) success_data s
                       \<or> (\<exists>a. n = get_output_signal (enrich blk) (failure_data a) s)"
    by blast
  from res assms(2) ns obtain d where d: "d = success_data \<or> (\<exists>a. d = failure_data a)"
    and n: "n = get_output_signal (enrich blk) d s"
    by auto
  from d have typed: "result_typed d"
    by (auto simp: success_data_def failure_data_def result_typed_def)
  from get_output_signal_typed [OF typed, of "enrich blk" s] n typed show ?thesis
    by blast
qed

theorem process_signal_enrichment_witness:
  "dom (map_of success_data) = {''error'', ''message''}"
proof -
  have "map_of success_data
          \<in> set (drop (length (notified (w_log empty_world))) [map_of success_data])"
    by (simp add: empty_world_def)
  from process_signal_enrichment [OF process_signal_example [of "Map.empty"], simplified, OF this]
  show ?thesis
    by (simp add: default_enrich_def)
qed

section \<open>Bounds on collaborator calls\<close>

text \<open>
  C20. One call of the handler only appends to the call log, and appends at most five
  calls: one open, one send, one close and at most two notifications (the result, and
  the failure report when notifying the result raised).
\<close>

theorem process_signal_call_bounds:
  assumes "process_signal blk ev E s w = (r, w')"
  shows "\<exists>L. w_log w' = w_log w @ L \<and> length L \<le> 5
    \<and> length (filter (\<lambda>x. case fst x of Notify _ \<Rightarrow> True | _ \<Rightarrow> False) L) \<le> 2
    \<and> length (filter (\<lambda>x. case fst x of Open _ _ \<Rightarrow> True | _ \<Rightarrow> False) L) \<le> 1"
  using assms
  by (auto simp: process_defs split: sum.splits option.splits if_splits list.splits)

theorem process_signal_call_bounds_witness:
  "\<exists>L. [(Open (PyStr ''[[MAILGUN_DOMAIN]]'') (PyStr ''[[MAILGUN_API_KEY]]''), None),
         (Send (build_message example_resolved), None),
         (Close, None),
         (Notify (map_of success_data), None)] = L \<and> length L \<le> 5
    \<and> length (filter (\<lambda>x. case fst x of Notify _ \<Rightarrow> True | _ \<Rightarrow> False) L) \<le> 2
    \<and> length (filter (\<lambda>x. case fst x of Open _ _ \<Rightarrow> True | _ \<Rightarrow> False) L) \<le> 1"
  using process_signal_call_bounds [OF process_signal_example [of "Map.empty"]]
  by (simp add: empty_world_def)

section \<open>Recipient templates\<close>

lemma collect_recipients_map:
  assumes "\<forall>x\<in>set xs. eval_string_property ev (recip (g x)) s = Inr (f x)"
  shows "collect_recipients ev s acc (map g xs) = Inr (acc @ map f xs)"
  using assms by (induction xs arbitrary: acc) auto

lemma nio_resolver_attr_template:
  assumes "n \<noteq> []" "list_all is_ident_char n" "s n = Some v"
  shows "eval_string_property nio_resolver (render [TAttr n]) s = Inr (py_str v)"
proof -
  from assms(1,2) have "parse_template (render [TAttr n]) = Some [TAttr n]"
    by (intro parse_template_render) simp
  with assms(3) show ?thesis
    by (simp add: nio_resolver_def eval_pieces_def eval_string_property_def)
qed

text \<open>
  C21. Recipients written as the templates \<open>{{ $n }}\<close> that \<open>render\<close> prints, for
  identifier names present in the signal, are resolved by the host's evaluator to the
  \<open>str()\<close> of those attributes, in the configured order.
\<close>

theorem recipient_templates_roundtrip:
  assumes "\<forall>n\<in>set ns. n \<noteq> [] \<and> list_all is_ident_char n \<and> s n \<noteq> None"
  shows "collect_recipients nio_resolver s [] (map (\<lambda>n. \<lparr>recip = render [TAttr n]\<rparr>) ns)
           = Inr (map (\<lambda>n. py_str (the (s n))) ns)"
proof -
  have "eval_string_property nio_resolver (recip \<lparr>recip = render [TAttr n]\<rparr>) s
          = Inr (py_str (the (s n)))" if "n \<in> set ns" for n
  proof -
    from assms that obtain v where "n \<noteq> []" "list_all is_ident_char n" and v: "s n = Some v"
      by auto
    then have "eval_string_property nio_resolver (render [TAttr n]) s = Inr (py_str v)"
      by (rule nio_resolver_attr_template)
    with v show ?thesis by simp
  qed
  then show ?thesis
    using collect_recipients_map [where acc = "[]" and ev = nio_resolver and s = s and xs = ns
        and g = "\<lambda>n. \<lparr>recip = render [TAttr n]\<rparr>" and f = "\<lambda>n. py_str (the (s n))"]
    by (simp only: ball_simps append_Nil) blast
qed

theorem recipient_templates_roundtrip_witness:
  "collect_recipients nio_resolver [''email'' \<mapsto> PyStr ''a@x.org'', ''cc'' \<mapsto> PyStr ''b@x.org''] []
     (map (\<lambda>n. \<lparr>recip = render [TAttr n]\<rparr>) [''email'', ''cc''])
   = Inr [''a@x.org'', ''b@x.org'']"
  using recipient_templates_roundtrip [of "[''email'', ''cc'']"
      "[''email'' \<mapsto> PyStr ''a@x.org'', ''cc'' \<mapsto> PyStr ''b@x.org'']"]
  by (simp add: is_ident_char_def)

end
