(* ===== verification/Spec2Isabelle.thy ===== *)
theory Spec2Isabelle
  imports Reporting
begin

text \<open>
  \<^bold>\<open>Verification of the Mailgun notifier block\<close> (src/mailgun_block.py).

  \<^bold>\<open>The program.\<close> One nio block, \<open>MailGun\<close>, with one handler,
  \<open>process_signal(signal)\<close>. The handler resolves the block's templated properties
  against the incoming signal (credentials, sender, the To/CC/BCC recipient lists,
  subject, plain text and HTML), opens a fluentmail \<open>Mailgun\<close> backend in a \<open>with\<close>
  statement, builds a fluentmail \<open>Message\<close> and sends it, and notifies the host of one
  result signal: \<open>{error: 0, message: 'Password reset email sent.'}\<close> when the
  \<open>try\<close> block completes, \<open>{error: 1, message: e.args[0]}\<close> when it raises an
  \<open>Exception\<close>. It interacts with two collaborators that are not under src/: the host
  framework (property evaluation, \<open>get_output_signal\<close> of the \<open>EnrichSignals\<close> mixin,
  \<open>notify_signals\<close>) and the email backend (open, send, \<open>__exit__\<close>).

  \<^bold>\<open>Theories.\<close>
  \<^item> \<open>Prelude\<close>: Python values (\<open>pyval\<close>), exceptions (\<open>exn\<close>: class, whether it
    derives from \<open>Exception\<close>, \<open>args\<close>), \<open>str()\<close>, the result type
    \<open>exn + 'a\<close> with its bind \<open>rbind\<close>, shared list lemmas.
  \<^item> \<open>Host\<close> (modelled from the spec): signals as attribute maps, the property
    evaluator as a parameter \<open>resolver\<close> (the spec's injected \<open>resolve(template,
    context)\<close>), \<open>StringProperty\<close>'s cast, and \<open>get_output_signal\<close>.
  \<^item> \<open>Backend\<close> (modelled from the spec): the fluentmail message record, the calls the
    block makes (\<open>effect\<close>), an oracle \<open>env\<close> deciding which call raises, the world (the
    backend connection's state and the ordered log of calls with their outcomes), the
    single operation \<open>call\<close>, and the backend's connection protocol as the inductive
    step relation \<open>conn_step\<close> and its runs \<open>conn_run\<close>.
  \<^item> \<open>Block_Config\<close> (lines 7--30): the property holders as records with the declared
    defaults, and the block's configuration record \<open>mailgun\<close>.
  \<^item> \<open>MailGun\<close> (lines 32--66): \<open>collect_recipients\<close> (the three append loops),
    \<open>resolve_fields\<close> (lines 33--50), \<open>build_message\<close> (54--60), \<open>with_backend\<close>
    (the \<open>with\<close> statement, 53/61), \<open>try_body\<close> (52--63), \<open>handle_exception\<close>
    (65--66), \<open>dispatch\<close> and \<open>process_signal\<close>. The handler is a function from the
    configuration, the resolver, the oracle, the signal and the world to
    \<open>(exn option, world)\<close>: \<open>None\<close> when the Python method returns, \<open>Some e\<close> when
    it raises \<open>e\<close> to the host.
  \<^item> \<open>Template\<close> (modelled from the spec): the host's \<open>{{ $attr }}\<close> expressions as a
    concrete resolver \<open>nio_resolver\<close> (a parser terminating by a length measure, an
    evaluator, a printer, and the round trip \<open>parse_template (render ps) = Some ps\<close>
    for well-formed pieces), used to resolve recipient templates in Reporting.
  \<^item> \<open>Reporting\<close>: what the host receives from one run of the handler: the type
    of the result record, the enrichment modes seen in the notified signal, bounds
    on the collaborator calls, and recipient templates resolved through
    \<open>nio_resolver\<close>.
  \<^item> this theory: the spec's abstract notifier (\<open>Pending \<rightarrow> Sent | Failed\<close>, one
    result event per transition) and the refinement of it by \<open>process_signal\<close>; the
    host's delivery of a sequence of signals (\<open>run_signals\<close>) and the host's
    contract for one signal (\<open>host_contract\<close>, \<open>backend_result\<close>); the worlds the
    host can reach by delivering signals (\<open>host_reachable\<close>, an inductive
    reachability predicate over any oracle and any signal); a weaker contract in
    which the host's notification may raise (\<open>weak_contract\<close>, \<open>attempts\<close>); and the
    divergences modelling exposed.

  \<^bold>\<open>What is proved.\<close> In MailGun: the result of the handler on every branch (success,
  failing open, failing send, failing success notification, uncaught
  \<open>BaseException\<close>, an \<open>Exception\<close> with empty \<open>args\<close> from any step of the \<open>try\<close>
  block, failing resolution); which template feeds which resolved field; that
  it notifies exactly one signal iff it returns, and none when it raises; that it sends
  at most once; that the connection is released on every path and the calls follow the
  backend protocol; that the recipient loops
  preserve order and fail on the first failing recipient. In Reporting: every
  notified signal carries a result record with keys \<open>error\<close>, \<open>message\<close> and code 0
  or 1; the enrichment modes keep or drop the incoming attributes as configured; one
  run appends at most five calls, with at most one open and two notifications; and
  recipients written as \<open>{{ $n }}\<close> resolve to the attributes' values in order. Here:
  the refinement of the spec's notifier under the host's contract, per-run counts over
  a sequence of signals (no deduplication), that under the contract every signal of a
  sequence is answered once, in delivery order, by a transition of the notifier, the
  invariant of every reachable world (no open connection, a protocol-conforming log,
  well-typed notifications; by rule induction over \<open>host_reachable\<close>), that under a
  weaker contract where the host's notification may raise every signal is still handed
  one or two result signals in delivery order, the first being the spec's result
  (\<open>weak_contract\<close>, \<open>attempts\<close>), the bounds of \<open>5 n\<close> calls, \<open>2 n\<close> notification
  attempts and \<open>n\<close> sends for \<open>n\<close> signals, and that a failure of the backend's
  \<open>__exit__\<close> after an accepted send is reported to the host as a failed send. The
  spec's worked examples (section 8) are not separate claims: they are instances of
  the general theorems (C1, C4, C3, C7 with C21), and some serve as their witnesses.

  \<^bold>\<open>Modelling choices.\<close> No loop in the code can diverge (the recipient loops are
  structural recursion, and the template parser terminates by the length of the
  remaining text), so no fuel is needed; the only unbounded behaviour, the host
  delivering signals, is the list of signals given to \<open>run_signals\<close>. Every collaborator call is decided by
  the oracle \<open>env\<close>; theorems hold for every oracle, and name in their hypotheses the
  outcomes they need. The backend's \<open>__exit__\<close> is taken to release the connection even
  when it raises and never to suppress an exception; building the fluentmail message
  (lines 54--60) is taken not to raise; a notification that raises is taken not to have
  been delivered.

  \<^bold>\<open>Plan.\<close> Modelled first, as the behaviour that matters most: the handler's
  dispatch and reporting (MailGun), then the property resolution it depends on, then the
  configuration records; the collaborators are modelled only as far as the handler
  observes them; the host's template language is modelled for the attribute expressions
  the block's defaults use; then what the host observes over one run and over
  sequences of signals (Reporting, and the liveness of \<open>run_signals\<close> here). The host's
  contract was then weakened to notifications that may fail.

  \<^bold>\<open>Not modelled.\<close> The host's template language beyond attribute expressions (the
  handler's theorems take the resolver as a parameter and hold for any resolver),
  environment-variable
  substitution of \<open>[[...]]\<close> defaults, the properties' UI metadata (titles, order), the
  block lifecycle, and the backend's wire protocol (HTTP, authentication).
  Concurrent invocations (spec section 5) are not modelled as interleavings: every
  collaborator call's outcome is decided by the oracle from the call alone, and the
  handler's calls depend only on those outcomes, never on the log of other
  invocations, so an interleaving of two invocations' calls could only permute the log.
\<close>

section \<open>The spec's notifier\<close>

text \<open>
  The spec's abstract component (section 4.1): a signal is \<open>Pending\<close> until it ends
  \<open>Sent\<close> or \<open>Failed\<close>, and the transition emits one result event, the success dict or
  a failure dict carrying the failure's description.
\<close>

datatype notifier_state = Pending | Sent | Failed

inductive notifier_step :: "notifier_state \<Rightarrow> (string \<times> pyval) list \<Rightarrow> notifier_state \<Rightarrow> bool" where
  sent: "notifier_step Pending success_data Sent"
| failed: "notifier_step Pending (failure_data m) Failed"

inductive_cases notifier_stepE: "notifier_step st d st'"

section \<open>The host delivering signals\<close>

text \<open>
  The host calls the handler once per incoming signal, in order, each call with the
  backend's behaviour at that time; an exception the handler raises is recorded and the
  host goes on with the next signal.
\<close>

fun run_signals :: "mailgun \<Rightarrow> resolver \<Rightarrow> (env \<times> signal) list \<Rightarrow> world \<Rightarrow> exn option list \<times> world" where
  "run_signals blk ev [] w = ([], w)"
| "run_signals blk ev ((E, s) # xs) w =
     (case process_signal blk ev E s w of
        (r, w1) \<Rightarrow> (case run_signals blk ev xs w1 of (rs, w2) \<Rightarrow> (r # rs, w2)))"

definition opens_backend :: "mailgun \<Rightarrow> resolver \<Rightarrow> env \<times> signal \<Rightarrow> bool" where
  "opens_backend blk ev x =
     (case resolve_fields blk ev (snd x) of
        Inl _ \<Rightarrow> False
      | Inr f \<Rightarrow> open_backend (fst x) (res_domain f) (res_key f) = None)"

text \<open>
  The host's side of the contract for one delivered signal, as in C8: the properties
  resolve, the backend's exit and the host's notification never raise, and every
  failure of the backend is an \<open>Exception\<close> with a description. \<open>backend_result\<close> is the
  result record the spec (section 4) promises for the signal: error 0 when the backend
  accepted the message, else error 1 with the backend's description.
\<close>

definition host_contract :: "mailgun \<Rightarrow> resolver \<Rightarrow> env \<times> signal \<Rightarrow> bool" where
  "host_contract blk ev x =
     (case resolve_fields blk ev (snd x) of
        Inl _ \<Rightarrow> False
      | Inr f \<Rightarrow> close_backend (fst x) = None \<and> (\<forall>sig. notify_host (fst x) sig = None)
          \<and> (\<forall>e. open_backend (fst x) (res_domain f) (res_key f) = Some e
                 \<or> send_message (fst x) (build_message f) = Some e
                 \<longrightarrow> exn_is_Exception e \<and> exn_args e \<noteq> []))"

definition backend_result :: "mailgun \<Rightarrow> resolver \<Rightarrow> env \<times> signal \<Rightarrow> (string \<times> pyval) list" where
  "backend_result blk ev x =
     (case resolve_fields blk ev (snd x) of
        Inl _ \<Rightarrow> []
      | Inr f \<Rightarrow>
          (case open_backend (fst x) (res_domain f) (res_key f) of
             Some e \<Rightarrow> failure_data (hd (exn_args e))
           | None \<Rightarrow>
               (case send_message (fst x) (build_message f) of
                  Some e \<Rightarrow> failure_data (hd (exn_args e))
                | None \<Rightarrow> success_data)))"

text \<open>
  A weaker host contract, in which the host's notification may raise: the properties
  resolve, the backend's exit never raises, and every failure of the backend is an
  \<open>Exception\<close> with a description. \<open>attempts\<close> lists the signals the handler handed to
  \<open>notify_signals\<close>, delivered or not, in the order of the calls.
\<close>

definition weak_contract :: "mailgun \<Rightarrow> resolver \<Rightarrow> env \<times> signal \<Rightarrow> bool" where
  "weak_contract blk ev x =
     (case resolve_fields blk ev (snd x) of
        Inl _ \<Rightarrow> False
      | Inr f \<Rightarrow> close_backend (fst x) = None
          \<and> (\<forall>e. open_backend (fst x) (res_domain f) (res_key f) = Some e
                 \<or> send_message (fst x) (build_message f) = Some e
                 \<longrightarrow> exn_is_Exception e \<and> exn_args e \<noteq> []))"

fun attempted :: "effect \<times> exn option \<Rightarrow> signal list" where
  "attempted (Notify n, _) = [n]"
| "attempted _ = []"

definition attempts :: "call_log \<Rightarrow> signal list" where
  "attempts L = concat (map attempted L)"

text \<open>
  The worlds the host can bring about: it starts with no connection and an empty log,
  and delivers any signal at any time, whatever the backend and the host's own
  notification do on that delivery (\<open>deliver\<close> quantifies over the oracle).
\<close>

inductive host_reachable :: "mailgun \<Rightarrow> resolver \<Rightarrow> world \<Rightarrow> bool" for blk ev where
  start: "host_reachable blk ev empty_world"
| deliver: "host_reachable blk ev w \<Longrightarrow> process_signal blk ev E s w = (r, w') \<Longrightarrow>
            host_reachable blk ev w'"

section \<open>The spec's examples\<close>

text \<open>
  The configuration of the spec's section 8, with templates that contain no expressions,
  so that each resolves to its own text.
\<close>

definition spec_block :: mailgun where
  "spec_block =
     \<lparr>version = ''0.1.0'',
      creds = \<lparr>api_domain = ''mg.example.com'', api_key = ''key-123''\<rparr>,
      emails = \<lparr>sender = ''<no-reply@x.com>'', to_recipients = [\<lparr>recip = ''a@x.com''\<rparr>],
                cc_recipients = [], bcc_recipients = []\<rparr>,
      message = \<lparr>subject = ''S'', msg_text = ''T'', html = ''<b>T</b>''\<rparr>,
      enrich = default_enrich\<rparr>"

definition spec_resolved :: resolved where
  "spec_resolved =
     \<lparr>res_domain = PyStr ''mg.example.com'', res_key = PyStr ''key-123'', res_text = ''T'',
      res_html = ''<b>T</b>'', res_subject = ''S'', res_sender = ''<no-reply@x.com>'',
      res_to = [''a@x.com''], res_cc = [], res_bcc = []\<rparr>"

lemma resolve_fields_spec_block:
  "resolve_fields spec_block literal_resolver s = Inr spec_resolved"
  by (simp add: resolve_fields_def spec_block_def literal_resolver_def eval_string_property_def
      spec_resolved_def)

lemma enrich_spec_block [simp]: "enrich spec_block = default_enrich"
  by (simp add: spec_block_def)

section \<open>Refinement of the spec's notifier\<close>

text \<open>
  C8. Under the host's side of the contract (the properties resolve, the backend's exit
  and the host's notification never raise, and every failure of the backend is an
  \<open>Exception\<close> with a description), a run of the handler is one transition of the
  spec's notifier: it returns, the host receives exactly the event of that transition,
  and the transition ends in \<open>Sent\<close> exactly when the backend accepted the message built
  from the resolved fields.
\<close>

theorem notifier_refines_spec:
  assumes res: "resolve_fields blk ev s = Inr f"
    and cls: "close_backend E = None"
    and ntf: "\<forall>sig. notify_host E sig = None"
    and desc: "\<forall>e. open_backend E (res_domain f) (res_key f) = Some e
                  \<or> send_message E (build_message f) = Some e
                  \<longrightarrow> exn_is_Exception e \<and> exn_args e \<noteq> []"
    and run: "process_signal blk ev E s w = (r, w')"
  shows "r = None \<and>
    (\<exists>d st. notifier_step Pending d st
       \<and> notified (w_log w') = notified (w_log w) @ [get_output_signal (enrich blk) d s]
       \<and> (st = Sent \<longleftrightarrow> accepted (w_log w') = accepted (w_log w) @ [build_message f]))"
proof (cases "open_backend E (res_domain f) (res_key f)")
  case opened: None
  show ?thesis
  proof (cases "send_message E (build_message f)")
    case None
    with opened res cls ntf run have "r = None"
      and "w' = \<lparr>w_conn = Disconnected, w_log = w_log w @
             [(Open (res_domain f) (res_key f), None), (Send (build_message f), None),
              (Close, None), (Notify (get_output_signal (enrich blk) success_data s), None)]\<rparr>"
      by (simp_all add: process_defs)
    then show ?thesis
      by (intro conjI exI [of _ success_data] exI [of _ Sent]) (simp_all add: notifier_step.sent)
  next
    case (Some e)
    with opened desc obtain a as where args: "exn_args e = a # as" and exc: "exn_is_Exception e"
      by (cases "exn_args e") auto
    with Some opened res cls ntf run have "r = None"
      and "w' = \<lparr>w_conn = Disconnected, w_log = w_log w @
             [(Open (res_domain f) (res_key f), None), (Send (build_message f), Some e),
              (Close, None), (Notify (get_output_signal (enrich blk) (failure_data a) s), None)]\<rparr>"
      by (simp_all add: process_defs)
    then show ?thesis
      by (intro conjI exI [of _ "failure_data a"] exI [of _ Failed]) (simp_all add: notifier_step.failed)
  qed
next
  case (Some e)
  with desc obtain a as where args: "exn_args e = a # as" and exc: "exn_is_Exception e"
    by (cases "exn_args e") auto
  with Some res ntf run have "r = None"
    and "w' = \<lparr>w_conn = w_conn w, w_log = w_log w @
           [(Open (res_domain f) (res_key f), Some e),
            (Notify (get_output_signal (enrich blk) (failure_data a) s), None)]\<rparr>"
    by (simp_all add: process_defs)
  then show ?thesis
    by (intro conjI exI [of _ "failure_data a"] exI [of _ Failed]) (simp_all add: notifier_step.failed)
qed

theorem notifier_refines_spec_witness:
  "fst (process_signal spec_block literal_resolver
          (env_ok\<lparr>send_message := (\<lambda>m. Some (exception_with [PyStr ''auth failed'']))\<rparr>)
          Map.empty empty_world) = None \<and>
   (\<exists>d st. notifier_step Pending d st
      \<and> notified (w_log (snd (process_signal spec_block literal_resolver
            (env_ok\<lparr>send_message := (\<lambda>m. Some (exception_with [PyStr ''auth failed'']))\<rparr>)
            Map.empty empty_world)))
        = notified (w_log empty_world) @ [get_output_signal (enrich spec_block) d Map.empty]
      \<and> (st = Sent \<longleftrightarrow>
          accepted (w_log (snd (process_signal spec_block literal_resolver
            (env_ok\<lparr>send_message := (\<lambda>m. Some (exception_with [PyStr ''auth failed'']))\<rparr>)
            Map.empty empty_world)))
          = accepted (w_log empty_world) @ [build_message spec_resolved]))"
  by (rule notifier_refines_spec [where
        E = "env_ok\<lparr>send_message := (\<lambda>m. Some (exception_with [PyStr ''auth failed'']))\<rparr>"])
    (simp_all add: resolve_fields_spec_block env_ok_def exception_with_def)

section \<open>Sequences of signals\<close>

text \<open>
  C12. Over any sequence of signals, the host receives exactly one result signal per
  handler call that returns, and the backend is asked to send once per signal whose
  properties resolve and whose backend opens: identical signals are not deduplicated.
\<close>

theorem run_signals_counts:
  assumes "run_signals blk ev xs w = (rs, w')"
  shows "length rs = length xs
    \<and> length (notified (w_log w')) = length (notified (w_log w)) + count_list rs None
    \<and> length (filter is_send (w_log w')) = length (filter is_send (w_log w))
         + length (filter (opens_backend blk ev) xs)"
  using assms
proof (induction blk ev xs w arbitrary: rs w' rule: run_signals.induct)
  case (1 blk ev w)
  then show ?case by simp
next
  case (2 blk ev E s xs w)
  obtain r w1 where p: "process_signal blk ev E s w = (r, w1)"
    by (cases "process_signal blk ev E s w")
  obtain rs1 w2 where q: "run_signals blk ev xs w1 = (rs1, w2)"
    by (cases "run_signals blk ev xs w1")
  from "2.prems" p q have rs: "rs = r # rs1" and w': "w' = w2"
    by simp_all
  from "2.IH" [OF p [symmetric] q] process_signal_log_counts [OF p] rs w' show ?case
    by (auto simp: opens_backend_def split: sum.splits)
qed

theorem run_signals_counts_witness:
  "length (filter is_send (w_log (snd (run_signals spec_block literal_resolver
      [(env_ok, Map.empty), (env_ok, Map.empty)] empty_world)))) = 2
   \<and> length (notified (w_log (snd (run_signals spec_block literal_resolver
      [(env_ok, Map.empty), (env_ok, Map.empty)] empty_world)))) = 2"
  using run_signals_counts [of spec_block literal_resolver "[(env_ok, Map.empty), (env_ok, Map.empty)]"
      empty_world "fst (run_signals spec_block literal_resolver
        [(env_ok, Map.empty), (env_ok, Map.empty)] empty_world)"
      "snd (run_signals spec_block literal_resolver
        [(env_ok, Map.empty), (env_ok, Map.empty)] empty_world)"]
  by (simp add: process_defs resolve_fields_spec_block opens_backend_def env_ok_def empty_world_def)

text \<open>
  C22. When the host keeps its side of the contract for every signal of a sequence,
  every signal is answered: each call of the handler returns normally, the host
  receives exactly one result signal per delivered signal, in the order the signals
  were delivered, each carrying the result the spec promises for that signal, and each
  result is a transition of the spec's notifier.
\<close>

theorem run_signals_answers_each:
  assumes "\<forall>x\<in>set xs. host_contract blk ev x"
    and "run_signals blk ev xs w = (rs, w')"
  shows "rs = replicate (length xs) None
    \<and> notified (w_log w') = notified (w_log w)
        @ map (\<lambda>x. get_output_signal (enrich blk) (backend_result blk ev x) (snd x)) xs
    \<and> (\<forall>x\<in>set xs. \<exists>st. notifier_step Pending (backend_result blk ev x) st)"
  using assms
proof (induction blk ev xs w arbitrary: rs w' rule: run_signals.induct)
  case (1 blk ev w)
  then show ?case by simp
next
  case (2 blk ev E s xs w)
  obtain r w1 where p: "process_signal blk ev E s w = (r, w1)"
    by (cases "process_signal blk ev E s w")
  obtain rs1 w2 where q: "run_signals blk ev xs w1 = (rs1, w2)"
    by (cases "run_signals blk ev xs w1")
  from "2.prems" p q have rs: "rs = r # rs1" and w': "w' = w2" and c: "host_contract blk ev (E, s)"
    by simp_all
  from c p have step: "r = None
    \<and> notified (w_log w1) = notified (w_log w) @ [get_output_signal (enrich blk) (backend_result blk ev (E, s)) s]
    \<and> (\<exists>st. notifier_step Pending (backend_result blk ev (E, s)) st)"
    by (auto simp: host_contract_def backend_result_def process_defs notifier_step.simps
             split: sum.splits option.splits if_splits list.splits)
  from "2.prems"(1) have "\<forall>x\<in>set xs. host_contract blk ev x"
    by simp
  from "2.IH" [OF p [symmetric] this q] step rs w' show ?case
    by simp
qed

theorem run_signals_answers_each_witness:
  "fst (run_signals spec_block literal_resolver
     [(env_ok, Map.empty),
      (env_ok\<lparr>send_message := (\<lambda>m. Some (exception_with [PyStr ''auth failed'']))\<rparr>, Map.empty)]
     empty_world) = [None, None]
   \<and> notified (w_log (snd (run_signals spec_block literal_resolver
     [(env_ok, Map.empty),
      (env_ok\<lparr>send_message := (\<lambda>m. Some (exception_with [PyStr ''auth failed'']))\<rparr>, Map.empty)]
     empty_world)))
     = [map_of success_data, map_of (failure_data (PyStr ''auth failed''))]"
proof -
  have "\<forall>x\<in>set [(env_ok, Map.empty),
      (env_ok\<lparr>send_message := (\<lambda>m. Some (exception_with [PyStr ''auth failed'']))\<rparr>, Map.empty)].
      host_contract spec_block literal_resolver x"
    by (simp add: host_contract_def resolve_fields_spec_block env_ok_def exception_with_def)
  from run_signals_answers_each [OF this surjective_pairing] show ?thesis
    by (simp only: backend_result_def resolve_fields_spec_block)
       (simp add: env_ok_def exception_with_def empty_world_def default_enrich_def
                  get_output_signal_def)
qed

text \<open>
  C23. An invariant of every world the host can reach by delivering signals: no
  backend connection is left open, the whole call log is a run of the backend's
  connection protocol from and back to \<open>Disconnected\<close>, and every signal the host was
  notified of is an incoming signal enriched with a result record of keys \<open>error\<close>,
  \<open>message\<close> and code 0 or 1.
\<close>

theorem host_reachable_invariant:
  assumes "host_reachable blk ev w"
  shows "w_conn w = Disconnected \<and> conn_run Disconnected (w_log w) Disconnected
    \<and> (\<forall>n\<in>set (notified (w_log w)). \<exists>d s. result_typed d \<and> n = get_output_signal (enrich blk) d s)"
  using assms
proof (induction rule: host_reachable.induct)
  case start
  then show ?case
    by (simp add: empty_world_def)
next
  case (deliver w E s r w')
  from deliver.hyps(2) deliver.IH have conn: "w_conn w' = Disconnected"
    by (auto simp: process_defs split: sum.splits option.splits if_splits list.splits)
  from deliver.hyps(2) obtain L where L: "w_log w' = w_log w @ L"
    and run: "conn_run Disconnected L Disconnected"
    by (auto simp: process_defs conn_step_simps
        split: sum.splits option.splits if_splits list.splits dest: sym)
  from process_signal_notified_results [OF deliver.hyps(2)] obtain ns
    where ns: "notified (w_log w') = notified (w_log w) @ ns"
    and res: "\<forall>n\<in>set ns. n = get_output_signal (enrich blk) success_data s
                       \<or> (\<exists>a. n = get_output_signal (enrich blk) (failure_data a) s)"
    by blast
  have "result_typed success_data" "\<And>a. result_typed (failure_data a)"
    by (simp_all add: result_typed_def success_data_def failure_data_def)
  with res have "\<forall>n\<in>set ns. \<exists>d s. result_typed d \<and> n = get_output_signal (enrich blk) d s"
    by blast
  with deliver.IH conn L run ns show ?case
    by (auto intro: conn_run_append)
qed

theorem host_reachable_invariant_witness:
  "w_conn \<lparr>w_conn = Disconnected,
      w_log = [(Open (PyStr ''[[MAILGUN_DOMAIN]]'') (PyStr ''[[MAILGUN_API_KEY]]''), None),
               (Send (build_message example_resolved), None), (Close, None),
               (Notify (map_of success_data), None)]\<rparr> = Disconnected
   \<and> conn_run Disconnected
       [(Open (PyStr ''[[MAILGUN_DOMAIN]]'') (PyStr ''[[MAILGUN_API_KEY]]''), None),
        (Send (build_message example_resolved), None), (Close, None),
        (Notify (map_of success_data), None)] Disconnected
   \<and> (\<exists>d s. result_typed d \<and> map_of success_data = get_output_signal (enrich example_block) d s)"
proof -
  have "host_reachable example_block literal_resolver
          \<lparr>w_conn = Disconnected,
           w_log = [(Open (PyStr ''[[MAILGUN_DOMAIN]]'') (PyStr ''[[MAILGUN_API_KEY]]''), None),
                    (Send (build_message example_resolved), None), (Close, None),
                    (Notify (map_of success_data), None)]\<rparr>"
    by (rule host_reachable.deliver [OF host_reachable.start process_signal_example])
  from host_reachable_invariant [OF this] show ?thesis
    by simp
qed

text \<open>
  C24. When the host's notification may fail, every delivered signal is still
  answered: for each signal of the sequence, in delivery order, the handler hands the
  host one or two result signals (the second reports the failure of the first), and
  the first is the result the spec promises for that signal.
\<close>

theorem run_signals_attempts:
  assumes "\<forall>x\<in>set xs. weak_contract blk ev x"
    and "run_signals blk ev xs w = (rs, w')"
  shows "\<exists>ass. attempts (w_log w') = attempts (w_log w) @ concat ass \<and> length ass = length xs
    \<and> (\<forall>(x, as)\<in>set (zip xs ass). as \<noteq> [] \<and> length as \<le> 2
          \<and> hd as = get_output_signal (enrich blk) (backend_result blk ev x) (snd x))"
  using assms
proof (induction blk ev xs w arbitrary: rs w' rule: run_signals.induct)
  case (1 blk ev w)
  then show ?case by simp
next
  case (2 blk ev E s xs w)
  obtain r w1 where p: "process_signal blk ev E s w = (r, w1)"
    by (cases "process_signal blk ev E s w")
  obtain rs1 w2 where q: "run_signals blk ev xs w1 = (rs1, w2)"
    by (cases "run_signals blk ev xs w1")
  from "2.prems" p q have w': "w' = w2" and c: "weak_contract blk ev (E, s)"
    by simp_all
  from c p have "\<exists>as. attempts (w_log w1) = attempts (w_log w) @ as \<and> as \<noteq> [] \<and> length as \<le> 2
      \<and> hd as = get_output_signal (enrich blk) (backend_result blk ev (E, s)) s"
    by (auto simp: weak_contract_def backend_result_def attempts_def process_defs
             split: sum.splits option.splits if_splits list.splits)
  then obtain as where step: "attempts (w_log w1) = attempts (w_log w) @ as" "as \<noteq> []"
    "length as \<le> 2" "hd as = get_output_signal (enrich blk) (backend_result blk ev (E, s)) s"
    by blast
  from "2.prems"(1) have "\<forall>x\<in>set xs. weak_contract blk ev x"
    by simp
  from "2.IH" [OF p [symmetric] this q] obtain ass where
    "attempts (w_log w2) = attempts (w_log w1) @ concat ass" "length ass = length xs"
    "\<forall>(x, as)\<in>set (zip xs ass). as \<noteq> [] \<and> length as \<le> 2
          \<and> hd as = get_output_signal (enrich blk) (backend_result blk ev x) (snd x)"
    by blast
  with step w' show ?case
    by (intro exI [of _ "as # ass"]) simp
qed

theorem run_signals_attempts_witness:
  "\<exists>as1 as2. attempts (w_log (snd (run_signals spec_block literal_resolver
        [(env_ok, Map.empty),
         (env_ok\<lparr>notify_host := (\<lambda>n. Some (exception_with [PyStr ''busy'']))\<rparr>, Map.empty)]
        empty_world))) = as1 @ as2
     \<and> hd as1 = map_of success_data \<and> hd as2 = map_of success_data
     \<and> length as1 \<le> 2 \<and> length as2 \<le> 2"
proof -
  let ?xs = "[(env_ok, Map.empty),
         (env_ok\<lparr>notify_host := (\<lambda>n. Some (exception_with [PyStr ''busy'']))\<rparr>, Map.empty :: signal)]"
  have "\<forall>x\<in>set ?xs. weak_contract spec_block literal_resolver x"
    by (simp add: weak_contract_def resolve_fields_spec_block env_ok_def)
  from run_signals_attempts [OF this surjective_pairing] obtain ass where
    a: "attempts (w_log (snd (run_signals spec_block literal_resolver ?xs empty_world)))
          = attempts (w_log empty_world) @ concat ass"
    and l: "length ass = length ?xs"
    and h: "\<forall>(x, as)\<in>set (zip ?xs ass). as \<noteq> [] \<and> length as \<le> 2
          \<and> hd as = get_output_signal (enrich spec_block) (backend_result spec_block literal_resolver x) (snd x)"
    by blast
  from l obtain as1 as2 where ass: "ass = [as1, as2]"
    by (cases ass; cases "tl ass") auto
  have br: "backend_result spec_block literal_resolver x = success_data" if "x \<in> set ?xs" for x
    using that by (auto simp: backend_result_def resolve_fields_spec_block env_ok_def)
  have e: "attempts (w_log empty_world) = []"
    by (simp add: empty_world_def attempts_def)
  have eq: "attempts (w_log (snd (run_signals spec_block literal_resolver ?xs empty_world)))
              = as1 @ as2"
    using a unfolding ass e by simp
  from h br have "hd as1 = map_of success_data \<and> hd as2 = map_of success_data
      \<and> length as1 \<le> 2 \<and> length as2 \<le> 2"
    by (simp add: ass get_output_signal_def default_enrich_def)
  with eq show ?thesis
    by blast
qed

text \<open>
  C25. Bounds over a sequence of signals: delivering \<open>n\<close> signals only appends to the
  call log, at most \<open>5 n\<close> calls, of which at most \<open>2 n\<close> hand a signal to the host and
  at most \<open>n\<close> send a message (there are no retries).
\<close>

theorem run_signals_call_bounds:
  assumes "run_signals blk ev xs w = (rs, w')"
  shows "\<exists>L. w_log w' = w_log w @ L \<and> length L \<le> 5 * length xs
    \<and> length (attempts L) \<le> 2 * length xs \<and> length (filter is_send L) \<le> length xs"
  using assms
proof (induction blk ev xs w arbitrary: rs w' rule: run_signals.induct)
  case (1 blk ev w)
  then show ?case by (simp add: attempts_def)
next
  case (2 blk ev E s xs w)
  obtain r w1 where p: "process_signal blk ev E s w = (r, w1)"
    by (cases "process_signal blk ev E s w")
  obtain rs1 w2 where q: "run_signals blk ev xs w1 = (rs1, w2)"
    by (cases "run_signals blk ev xs w1")
  from "2.prems" p q have w': "w' = w2"
    by simp
  from p have "\<exists>L. w_log w1 = w_log w @ L \<and> length L \<le> 5 \<and> length (attempts L) \<le> 2
      \<and> length (filter is_send L) \<le> 1"
    by (auto simp: attempts_def process_defs split: sum.splits option.splits if_splits list.splits)
  then obtain L1 where L1: "w_log w1 = w_log w @ L1" "length L1 \<le> 5" "length (attempts L1) \<le> 2"
    "length (filter is_send L1) \<le> 1"
    by blast
  from "2.IH" [OF p [symmetric] q] obtain L2 where L2: "w_log w2 = w_log w1 @ L2"
    "length L2 \<le> 5 * length xs" "length (attempts L2) \<le> 2 * length xs"
    "length (filter is_send L2) \<le> length xs"
    by blast
  have "attempts (L1 @ L2) = attempts L1 @ attempts L2"
    by (simp add: attempts_def)
  with L1 L2 w' show ?case
    by (intro exI [of _ "L1 @ L2"]) simp
qed

theorem run_signals_call_bounds_witness:
  "\<exists>L. w_log (snd (run_signals spec_block literal_resolver [(env_ok, Map.empty), (env_ok, Map.empty)]
          empty_world)) = w_log empty_world @ L
     \<and> length L \<le> 10 \<and> length (attempts L) \<le> 4 \<and> length (filter is_send L) \<le> 2"
proof -
  obtain L where "w_log (snd (run_signals spec_block literal_resolver
      [(env_ok, Map.empty), (env_ok, Map.empty)] empty_world)) = w_log empty_world @ L"
    and "length L \<le> 5 * length [(env_ok, Map.empty :: signal), (env_ok, Map.empty)]"
    and "length (attempts L) \<le> 2 * length [(env_ok, Map.empty :: signal), (env_ok, Map.empty)]"
    and "length (filter is_send L) \<le> length [(env_ok, Map.empty :: signal), (env_ok, Map.empty)]"
    using run_signals_call_bounds [OF surjective_pairing, of spec_block literal_resolver
        "[(env_ok, Map.empty), (env_ok, Map.empty)]" empty_world]
    by blast
  then show ?thesis
    by (intro exI [of _ L]) simp
qed

section \<open>A failure after delivery\<close>

text \<open>
  C13. A failure after the message was accepted is reported as a failed send: when the
  send succeeds and the backend's \<open>__exit__\<close> then raises an \<open>Exception\<close> with first
  argument \<open>a\<close>, the backend has accepted the message built from the resolved fields,
  the success result is never handed to the host, the host receives
  \<open>{error: 1, message: a}\<close> as the only result, and the handler returns; the spec's
  contract is that \<open>error: 0\<close> reports a successful send.
\<close>

theorem close_failure_reports_delivered_message:
  assumes res: "resolve_fields blk ev s = Inr f"
    and opened: "open_backend E (res_domain f) (res_key f) = None"
    and sent: "send_message E (build_message f) = None"
    and cls: "close_backend E = Some e"
    and exc: "exn_is_Exception e"
    and args: "exn_args e = a # as"
    and ntf: "notify_host E (get_output_signal (enrich blk) (failure_data a) s) = None"
    and run: "process_signal blk ev E s w = (r, w')"
  shows "r = None \<and> accepted (w_log w') = accepted (w_log w) @ [build_message f]
    \<and> notified (w_log w') = notified (w_log w) @ [get_output_signal (enrich blk) (failure_data a) s]
    \<and> attempts (drop (length (w_log w)) (w_log w'))
        = [get_output_signal (enrich blk) (failure_data a) s]"
proof -
  from res opened sent cls exc args ntf have
    "process_signal blk ev E s w =
      (None, \<lparr>w_conn = Disconnected, w_log = w_log w @
        [(Open (res_domain f) (res_key f), None), (Send (build_message f), None), (Close, Some e),
         (Notify (get_output_signal (enrich blk) (failure_data a) s), None)]\<rparr>)"
    by (simp add: process_defs)
  with run have "r = None" and "w' = \<lparr>w_conn = Disconnected, w_log = w_log w @
        [(Open (res_domain f) (res_key f), None), (Send (build_message f), None), (Close, Some e),
         (Notify (get_output_signal (enrich blk) (failure_data a) s), None)]\<rparr>"
    by simp_all
  then show ?thesis
    by (simp add: attempts_def)
qed

theorem close_failure_reports_delivered_message_witness:
  "fst (process_signal spec_block literal_resolver
          (env_ok\<lparr>close_backend := Some (exception_with [PyStr ''connection reset''])\<rparr>)
          Map.empty empty_world) = None
   \<and> accepted (w_log (snd (process_signal spec_block literal_resolver
          (env_ok\<lparr>close_backend := Some (exception_with [PyStr ''connection reset''])\<rparr>)
          Map.empty empty_world))) = [build_message spec_resolved]
   \<and> notified (w_log (snd (process_signal spec_block literal_resolver
          (env_ok\<lparr>close_backend := Some (exception_with [PyStr ''connection reset''])\<rparr>)
          Map.empty empty_world)))
       = [map_of [(''error'', PyInt 1), (''message'', PyStr ''connection reset'')]]"
proof -
  have "process_signal spec_block literal_resolver
          (env_ok\<lparr>close_backend := Some (exception_with [PyStr ''connection reset''])\<rparr>)
          Map.empty empty_world
        = (fst (process_signal spec_block literal_resolver
          (env_ok\<lparr>close_backend := Some (exception_with [PyStr ''connection reset''])\<rparr>)
          Map.empty empty_world), snd (process_signal spec_block literal_resolver
          (env_ok\<lparr>close_backend := Some (exception_with [PyStr ''connection reset''])\<rparr>)
          Map.empty empty_world))"
    by simp
  from close_failure_reports_delivered_message [OF resolve_fields_spec_block _ _ _ _ _ _ this]
  show ?thesis
    by (simp add: env_ok_def exception_with_def empty_world_def get_output_signal_def
        default_enrich_def failure_data_def)
qed

end
